theory Spec2Isabelle
  imports Main "HOL-Library.Word" "HOL-Library.Char_ord" "HOL-Library.List_Lexorder"
begin

section \<open>The read-path store of v1/services/storage/store.go\<close>

text \<open>
  A shallow embedding of \<^verbatim>\<open>store.go\<close>. Every method of \<^verbatim>\<open>Store\<close> is a HOL function
  that returns what the Go method returns together with the list of calls it made to its
  collaborators (the metadata client, the TSDB store, the cursor constructors), in the
  order the Go code makes them. Go's \<^verbatim>\<open>(value, error)\<close> results are pairs of options,
  \<open>None\<close> standing for \<^verbatim>\<open>nil\<close>; a panic is a value of its own.

  The Go \<^verbatim>\<open>context.Context\<close> argument and the logger carry no data the code reads and are
  left out. Receivers and request pointers are taken to be non-nil.
\<close>

subsection \<open>Basic types\<close>

type_synonym uint64 = "64 word"
type_synonym int64 = "64 word"

text \<open>A Go slice: \<open>None\<close> is the nil slice, \<open>Some xs\<close> a non-nil slice with elements \<open>xs\<close>.\<close>

type_synonym 'a slice = "'a list option"

definition len :: "'a slice \<Rightarrow> nat" where
  "len xs = (case xs of None \<Rightarrow> 0 | Some ys \<Rightarrow> length ys)"

definition elems :: "'a slice \<Rightarrow> 'a list" where
  "elems xs = (case xs of None \<Rightarrow> [] | Some ys \<Rightarrow> ys)"

text \<open>A Go \<^verbatim>\<open>error\<close> value, identified by its message.\<close>

datatype error = errors_New string

text \<open>What a Go function of result type \<^verbatim>\<open>(T, error)\<close> does: it returns, or it panics.\<close>

datatype 'a ret = Ret "'a option" "error option" | Panic string

subsection \<open>The influxql expression tree\<close>

datatype Token = EQ | NEQ | LT | LTE | GT | GTE | EQREGEX | NEQREGEX | AND | OR

datatype Expr =
    BinaryExpr Token Expr Expr
  | ParenExpr Expr
  | VarRef string
  | StringLiteral string
  | BooleanLiteral bool
  | IntegerLiteral int64
  | RegexLiteral string

subsection \<open>The wire predicate\<close>

datatype Node =
    LogicalExpression Token "Node list"
  | ComparisonExpression Token "Node list"
  | ParenExpression "Node list"
  | TagRef string
  | FieldRef string
  | LiteralString string
  | LiteralBool bool
  | LiteralInteger int64
  | LiteralRegex string

record Predicate =
  Root :: "Node option"

definition GetRoot :: "Predicate option \<Rightarrow> Node option" where
  "GetRoot p = (case p of None \<Rightarrow> None | Some q \<Rightarrow> Root q)"

subsection \<open>Metadata\<close>

record ShardInfo =
  ID :: uint64

record ShardGroupInfo =
  StartTime :: int64
  EndTime :: int64
  Shards :: "ShardInfo list"

record RetentionPolicyInfo =
  Name :: string

text \<open>
  \<^verbatim>\<open>meta.DatabaseInfo\<close>, of which the code only calls the method \<^verbatim>\<open>RetentionPolicy(name)\<close>.
\<close>

record DatabaseInfo =
  RetentionPolicy :: "string \<Rightarrow> RetentionPolicyInfo option"

text \<open>
  The interface \<^verbatim>\<open>MetaClient\<close>. The two \<^verbatim>\<open>time.Time\<close> arguments of
  \<^verbatim>\<open>ShardGroupsByTimeRange\<close> are always \<^verbatim>\<open>time.Unix(0, n)\<close> for an \<^verbatim>\<open>int64\<close> \<open>n\<close> of
  nanoseconds, and are passed as that \<open>n\<close>.
\<close>

record MetaClient =
  MetaClient_Database :: "string \<Rightarrow> DatabaseInfo option"
  MetaClient_ShardGroupsByTimeRange ::
    "string \<Rightarrow> string \<Rightarrow> int64 \<Rightarrow> int64 \<Rightarrow> ShardGroupInfo slice \<times> error option"

subsection \<open>The storage engine\<close>

datatype Authorizer = OpenAuthorizer | OtherAuthorizer string

datatype Shard = Shard uint64

record tsdb_TagKeys =
  Measurement :: string
  Keys :: "string list"

record KeyValue =
  Key :: string
  Value :: string

record tsdb_TagValues =
  tv_Measurement :: string
  Values :: "KeyValue list"

text \<open>\<^verbatim>\<open>influxql.Measurement\<close> and \<^verbatim>\<open>query.IteratorOptions\<close>, with the fields the code sets.\<close>

record influxql_Measurement =
  Database :: string
  RetentionPolicyName :: string
  SystemIterator :: string

record IteratorOptions =
  OrgID :: uint64
  Condition :: "Expr option"
  Authorizer :: Authorizer

text \<open>
  A value of Go's \<^verbatim>\<open>interface{}\<close> as found in the auxiliary fields of a point.
\<close>

datatype iface = String string | Integer int64 | Boolean bool | Nil

record FloatPoint =
  Aux :: "iface list"

text \<open>
  A \<^verbatim>\<open>query.Iterator\<close>. A float iterator is the list of non-nil points its \<^verbatim>\<open>Next\<close>
  returns before the first nil point.
\<close>

datatype Iterator = FloatIterator "FloatPoint list" | OtherIterator

text \<open>
  A \<^verbatim>\<open>tsdb.ShardGroup\<close>, of which the code only calls \<^verbatim>\<open>CreateIterator\<close>.
\<close>

record ShardGroup =
  CreateIterator :: "influxql_Measurement \<Rightarrow> IteratorOptions \<Rightarrow> Iterator option \<times> error option"

record TSDBStore =
  TSDBStore_MeasurementNames ::
    "Authorizer \<Rightarrow> string \<Rightarrow> Expr option \<Rightarrow> string list \<times> error option"
  TSDBStore_ShardGroup :: "uint64 slice \<Rightarrow> ShardGroup"
  TSDBStore_Shards :: "uint64 slice \<Rightarrow> Shard list"
  TSDBStore_TagKeys ::
    "Authorizer \<Rightarrow> uint64 slice \<Rightarrow> Expr option \<Rightarrow> tsdb_TagKeys list \<times> error option"
  TSDBStore_TagValues ::
    "Authorizer \<Rightarrow> uint64 slice \<Rightarrow> Expr option \<Rightarrow> tsdb_TagValues list \<times> error option"

record Store =
  TSDBStore :: TSDBStore
  MetaClient :: MetaClient

subsection \<open>Cursors and result sets\<close>

text \<open>
  An array cursor is the list of arrays its successive \<^verbatim>\<open>Next\<close> calls return; of an
  array only the timestamps are kept, since the code only reads its length. \<^verbatim>\<open>Next\<close> on
  an exhausted cursor returns an array of length 0.
\<close>

type_synonym array = "int64 list"

datatype Cursor =
    IntegerArrayCursor "array list"
  | FloatArrayCursor "array list"
  | UnsignedArrayCursor "array list"
  | BooleanArrayCursor "array list"
  | StringArrayCursor "array list"
  | OtherCursor string

definition Next :: "array list \<Rightarrow> array" where
  "Next batches = (case batches of [] \<Rightarrow> [] | a # _ \<Rightarrow> a)"

text \<open>\<^verbatim>\<open>models.Tags\<close>: key/value pairs; \<^verbatim>\<open>Get\<close> returns nil, the empty string, on a missing key.\<close>

type_synonym Tags = "(string \<times> string) list"

definition Get :: "Tags \<Rightarrow> string \<Rightarrow> string" where
  "Get tags k = (case map_of tags k of None \<Rightarrow> [] | Some v \<Rightarrow> v)"

text \<open>A series cursor is an opaque handle made by the cursor constructors.\<close>

datatype SeriesCursor = SeriesCursor nat

text \<open>
  \<^verbatim>\<open>reads.NewFilteredResultSet(ctx, start, end, cur)\<close> only stores its arguments; the
  result set is lazy.
\<close>

datatype ResultSet = NewFilteredResultSet int64 int64 SeriesCursor

datatype GroupResultSet = GroupResultSet nat

datatype StringIterator = EmptyStringIterator | NewStringSliceIterator "string list"

subsection \<open>Requests\<close>

record Any =
  TypeUrl :: string
  Bytes :: "8 word list"

record ReadSource =
  BucketID :: uint64
  OrganizationID :: uint64

record TimestampRange =
  Start :: int64
  End :: int64

record ReadFilterRequest =
  rf_ReadSource :: "Any option"
  rf_Range :: TimestampRange
  rf_Predicate :: "Predicate option"

record ReadGroupRequest =
  rg_ReadSource :: "Any option"
  rg_Range :: TimestampRange
  rg_Predicate :: "Predicate option"
  rg_GroupKeys :: "string list"

record TagKeysRequest =
  tk_TagsSource :: "Any option"
  tk_Range :: TimestampRange
  tk_Predicate :: "Predicate option"

record TagValuesRequest =
  tv_TagsSource :: "Any option"
  tv_Range :: TimestampRange
  tv_Predicate :: "Predicate option"
  tv_TagKey :: string

record metaqueryAttributes =
  mq_orgID :: uint64
  mq_db :: string
  mq_rp :: string
  mq_start :: int64
  mq_end :: int64
  mq_pred :: "Expr option"

subsection \<open>Package-level dependencies that are not part of store.go\<close>

text \<open>
  The functions, tables and constants that \<^verbatim>\<open>store.go\<close> uses from other files and
  packages. They are parameters of the model: every theorem holds for all of them.
  \<^item> \<open>MinNanoTime\<close>, \<open>MaxNanoTime\<close>: \<^verbatim>\<open>models.MinNanoTime\<close>, \<^verbatim>\<open>models.MaxNanoTime\<close>;
  \<^item> \<open>DefaultRetentionPolicyName\<close>: \<^verbatim>\<open>meta.DefaultRetentionPolicyName\<close>;
  \<^item> \<open>ID_String\<close>: \<^verbatim>\<open>influxdb.ID(n).String()\<close>;
  \<^item> \<open>UnmarshalAny\<close>: \<^verbatim>\<open>types.UnmarshalAny\<close> into a zero \<^verbatim>\<open>ReadSource\<close>;
  \<^item> \<open>sort_ShardGroupInfos\<close>, \<open>sort_Reverse_ShardGroupInfos\<close>: \<^verbatim>\<open>sort.Sort\<close> on
    \<^verbatim>\<open>meta.ShardGroupInfos\<close> and on its \<^verbatim>\<open>sort.Reverse\<close>;
  \<^item> \<open>measurementRemap\<close>, \<open>measurementKey\<close>, \<open>fieldKey\<close>: the reserved-name table and the
    two reserved keys of the package;
  \<^item> \<open>NodeToExpr\<close>, \<open>HasFieldValueKey\<close>: of package \<^verbatim>\<open>reads\<close>;
  \<^item> \<open>Reduce\<close>: \<^verbatim>\<open>influxql.Reduce(expr, nil)\<close>;
  \<^item> \<open>RewriteExprRemoveFieldKeyAndValue\<close>, \<open>HasFieldKeyOrValue\<close>, \<open>hasTagKey\<close>,
    \<open>newIndexSeriesCursor\<close>, \<open>newIndexSeriesCursorInfluxQLPred\<close>: of this package;
  \<^item> \<open>NewGroupResultSet\<close>: of package \<^verbatim>\<open>reads\<close>; its third argument is the cursor factory;
  \<^item> \<open>series\<close>: for a filtered result set, the \<^verbatim>\<open>Tags()\<close> and the \<^verbatim>\<open>Cursor()\<close> of each
    series that its successive \<^verbatim>\<open>Next()\<close> calls reach before \<^verbatim>\<open>Next()\<close> returns false;
  \<^item> \<open>MergeSortedStrings\<close>: \<^verbatim>\<open>slices.MergeSortedStrings\<close> on one slice.
\<close>

record Deps =
  MinNanoTime :: int64
  MaxNanoTime :: int64
  DefaultRetentionPolicyName :: string
  ID_String :: "uint64 \<Rightarrow> string"
  UnmarshalAny :: "Any \<Rightarrow> ReadSource \<times> error option"
  sort_ShardGroupInfos :: "ShardGroupInfo list \<Rightarrow> ShardGroupInfo list"
  sort_Reverse_ShardGroupInfos :: "ShardGroupInfo list \<Rightarrow> ShardGroupInfo list"
  measurementRemap :: "string \<rightharpoonup> string"
  measurementKey :: string
  fieldKey :: string
  NodeToExpr :: "Node \<Rightarrow> (string \<rightharpoonup> string) \<Rightarrow> Expr option \<times> error option"
  HasFieldValueKey :: "Expr option \<Rightarrow> bool"
  Reduce :: "Expr option \<Rightarrow> Expr option"
  RewriteExprRemoveFieldKeyAndValue :: "Expr option \<Rightarrow> Expr option"
  HasFieldKeyOrValue :: "Expr option \<Rightarrow> bool \<times> bool"
  hasTagKey :: "Expr option \<Rightarrow> bool"
  newIndexSeriesCursor :: "Predicate option \<Rightarrow> Shard list \<Rightarrow> SeriesCursor option \<times> error option"
  newIndexSeriesCursorInfluxQLPred ::
    "Expr option \<Rightarrow> Shard list \<Rightarrow> SeriesCursor option \<times> error option"
  NewGroupResultSet ::
    "ReadGroupRequest \<Rightarrow> (unit \<Rightarrow> SeriesCursor option \<times> error option) \<Rightarrow> GroupResultSet option"
  series :: "ResultSet \<Rightarrow> (Tags \<times> Cursor option) list"
  MergeSortedStrings :: "string list \<Rightarrow> string list"

text \<open>
  Modelled from the spec: \<^verbatim>\<open>influxql.CloneExpr\<close> (not under src/) returns a deep copy of
  the expression; a copy of a value is the value.
\<close>

definition CloneExpr :: "Expr option \<Rightarrow> Expr option" where
  "CloneExpr expr = expr"

text \<open>
  Modelled from the spec: \<^verbatim>\<open>reads.IsTrueBooleanLiteral\<close> (not under src/) holds when the
  expression is the literal boolean "true".
\<close>

definition IsTrueBooleanLiteral :: "Expr option \<Rightarrow> bool" where
  "IsTrueBooleanLiteral expr = (expr = Some (BooleanLiteral True))"

subsection \<open>Calls to the collaborators\<close>

datatype call =
    Call_Database string
  | Call_ShardGroupsByTimeRange string string int64 int64
  | Call_MeasurementNames Authorizer string "Expr option"
  | Call_ShardGroup "uint64 slice"
  | Call_Shards "uint64 slice"
  | Call_TagKeys Authorizer "uint64 slice" "Expr option"
  | Call_TagValues Authorizer "uint64 slice" "Expr option"
  | Call_newIndexSeriesCursor "Predicate option" "Shard list"
  | Call_newIndexSeriesCursorInfluxQLPred "Expr option" "Shard list"
  | Call_CreateIterator influxql_Measurement IteratorOptions
  | Call_NewGroupResultSet ReadGroupRequest

text \<open>The calls that go to the metadata service; all others reach the storage engine.\<close>

fun is_meta_call :: "call \<Rightarrow> bool" where
  "is_meta_call (Call_Database _) = True"
| "is_meta_call (Call_ShardGroupsByTimeRange _ _ _ _) = True"
| "is_meta_call _ = False"

subsection \<open>store.go\<close>

definition GetReadSource :: "Deps \<Rightarrow> Any \<Rightarrow> error + ReadSource" where
  "GetReadSource D any =
     (case UnmarshalAny D any of
        (source, Some err) \<Rightarrow> Inl err
      | (source, None) \<Rightarrow> Inr source)"

text \<open>
  Modelled from the spec: \<^verbatim>\<open>getReadSource\<close>, which the entry points call and which is not
  under src/, decodes the read source of a request from its opaque envelope, as the
  exported \<^verbatim>\<open>GetReadSource\<close> above does.
\<close>

definition getReadSource :: "Deps \<Rightarrow> Any \<Rightarrow> error + ReadSource" where
  "getReadSource D any = GetReadSource D any"

definition findShardIDs ::
  "Deps \<Rightarrow> Store \<Rightarrow> string \<Rightarrow> string \<Rightarrow> bool \<Rightarrow> int64 \<Rightarrow> int64
     \<Rightarrow> (uint64 slice \<times> error option) \<times> call list" where
  "findShardIDs D s database rp desc start end' =
     (let tr = [Call_ShardGroupsByTimeRange database rp start end'] in
      case MetaClient_ShardGroupsByTimeRange (MetaClient s) database rp start end' of
        (groups, Some err) \<Rightarrow> ((None, Some err), tr)
      | (groups, None) \<Rightarrow>
          if len groups = 0 then ((None, None), tr)
          else
            let groups' = (if desc then sort_Reverse_ShardGroupInfos D (elems groups)
                           else sort_ShardGroupInfos D (elems groups));
                shardIDs = fold (\<lambda>g ids. fold (\<lambda>si ids. ids @ [ID si]) (Shards g) ids) groups' []
            in ((Some shardIDs, None), tr))"

definition validateArgs ::
  "Deps \<Rightarrow> Store \<Rightarrow> uint64 \<Rightarrow> uint64 \<Rightarrow> int64 \<Rightarrow> int64
     \<Rightarrow> (string \<times> string \<times> int64 \<times> int64 \<times> error option) \<times> call list" where
  "validateArgs D s orgID bucketID start end' =
     (let database = ID_String D bucketID;
          rp = DefaultRetentionPolicyName D;
          tr = [Call_Database database]
      in case MetaClient_Database (MetaClient s) database of
           None \<Rightarrow> (([], [], 0, 0, Some (errors_New ''no database'')), tr)
         | Some di \<Rightarrow>
            (case RetentionPolicy di rp of
               None \<Rightarrow> (([], [], 0, 0, Some (errors_New ''invalid retention policy'')), tr)
             | Some rpi \<Rightarrow>
                 ((database, rp,
                   (if sint start \<le> 0 then MinNanoTime D else start),
                   (if sint end' \<le> 0 then MaxNanoTime D else end'),
                   None), tr)))"

definition ReadFilter ::
  "Deps \<Rightarrow> Store \<Rightarrow> ReadFilterRequest \<Rightarrow> (ResultSet ret \<times> ReadFilterRequest) \<times> call list" where
  "ReadFilter D s req =
     (case rf_ReadSource req of
        None \<Rightarrow> ((Ret None (Some (errors_New ''missing read source'')), req), [])
      | Some any \<Rightarrow>
     (case getReadSource D any of
        Inl err \<Rightarrow> ((Ret None (Some err), req), [])
      | Inr source \<Rightarrow>
     (case validateArgs D s (OrganizationID source) (BucketID source)
             (Start (rf_Range req)) (End (rf_Range req)) of
        ((database, rp, start, end', Some err), tr1) \<Rightarrow> ((Ret None (Some err), req), tr1)
      | ((database, rp, start, end', None), tr1) \<Rightarrow>
     (case findShardIDs D s database rp False start end' of
        ((shardIDs, Some err), tr2) \<Rightarrow> ((Ret None (Some err), req), tr1 @ tr2)
      | ((shardIDs, None), tr2) \<Rightarrow>
          if len shardIDs = 0 then ((Ret None None, req), tr1 @ tr2)
          else
            let shards = TSDBStore_Shards (TSDBStore s) shardIDs;
                tr3 = [Call_Shards shardIDs, Call_newIndexSeriesCursor (rf_Predicate req) shards]
            in (case newIndexSeriesCursor D (rf_Predicate req) shards of
                  (ic, Some err) \<Rightarrow> ((Ret None (Some err), req), tr1 @ tr2 @ tr3)
                | (None, None) \<Rightarrow> ((Ret None None, req), tr1 @ tr2 @ tr3)
                | (Some cur, None) \<Rightarrow>
                    let req' = req\<lparr>rf_Range := (rf_Range req)\<lparr>Start := start, End := end'\<rparr>\<rparr>
                    in ((Ret (Some (NewFilteredResultSet (Start (rf_Range req'))
                                      (End (rf_Range req')) cur)) None, req'),
                        tr1 @ tr2 @ tr3))))))"

definition ReadGroup ::
  "Deps \<Rightarrow> Store \<Rightarrow> ReadGroupRequest \<Rightarrow> (GroupResultSet ret \<times> ReadGroupRequest) \<times> call list" where
  "ReadGroup D s req =
     (case rg_ReadSource req of
        None \<Rightarrow> ((Ret None (Some (errors_New ''missing read source'')), req), [])
      | Some any \<Rightarrow>
     (case getReadSource D any of
        Inl err \<Rightarrow> ((Ret None (Some err), req), [])
      | Inr source \<Rightarrow>
     (case validateArgs D s (OrganizationID source) (BucketID source)
             (Start (rg_Range req)) (End (rg_Range req)) of
        ((database, rp, start, end', Some err), tr1) \<Rightarrow> ((Ret None (Some err), req), tr1)
      | ((database, rp, start, end', None), tr1) \<Rightarrow>
     (case findShardIDs D s database rp False start end' of
        ((shardIDs, Some err), tr2) \<Rightarrow> ((Ret None (Some err), req), tr1 @ tr2)
      | ((shardIDs, None), tr2) \<Rightarrow>
          if len shardIDs = 0 then ((Ret None None, req), tr1 @ tr2)
          else
            let shards = TSDBStore_Shards (TSDBStore s) shardIDs;
                req' = req\<lparr>rg_Range := (rg_Range req)\<lparr>Start := start, End := end'\<rparr>\<rparr>;
                newCursor = (\<lambda>_::unit.
                   case newIndexSeriesCursor D (rg_Predicate req') shards of
                     (cur, err) \<Rightarrow> if cur = None \<or> err \<noteq> None then (None, err) else (cur, None));
                tr3 = [Call_Shards shardIDs, Call_NewGroupResultSet req']
            in (case NewGroupResultSet D req' newCursor of
                  None \<Rightarrow> ((Ret None None, req'), tr1 @ tr2 @ tr3)
                | Some rs \<Rightarrow> ((Ret (Some rs) None, req'), tr1 @ tr2 @ tr3))))))"

text \<open>
  The translation of the wire predicate for the index, written twice in the source with
  the same text: lines 231 to 248 of \<^verbatim>\<open>TagKeys\<close> and lines 347 to 364 of \<^verbatim>\<open>TagValues\<close>.
  \<open>Inl\<close> is the early return of an error.
\<close>

definition indexPredicate :: "Deps \<Rightarrow> Predicate option \<Rightarrow> error + Expr option" where
  "indexPredicate D p =
     (case GetRoot p of
        None \<Rightarrow> Inr None
      | Some root \<Rightarrow>
         (case NodeToExpr D root (measurementRemap D) of
            (expr, Some err) \<Rightarrow> Inl err
          | (expr, None) \<Rightarrow>
              if HasFieldValueKey D expr then Inl (errors_New ''field values unsupported'')
              else
                let expr' = Reduce D (RewriteExprRemoveFieldKeyAndValue D (CloneExpr expr))
                in Inr (if IsTrueBooleanLiteral expr' then None else expr')))"

text \<open>
  The translation of the wire predicate for the attribute bundle, lines 298 to 314 of
  \<^verbatim>\<open>TagValues\<close>: as above, without the removal of field references.
\<close>

definition metaqueryPredicate :: "Deps \<Rightarrow> Predicate option \<Rightarrow> error + Expr option" where
  "metaqueryPredicate D p =
     (case GetRoot p of
        None \<Rightarrow> Inr None
      | Some root \<Rightarrow>
         (case NodeToExpr D root (measurementRemap D) of
            (influxqlPred, Some err) \<Rightarrow> Inl err
          | (influxqlPred, None) \<Rightarrow>
              if HasFieldValueKey D influxqlPred then Inl (errors_New ''field values unsupported'')
              else
                let influxqlPred' = Reduce D (CloneExpr influxqlPred)
                in Inr (if IsTrueBooleanLiteral influxqlPred' then None else influxqlPred')))"

definition TagKeys ::
  "Deps \<Rightarrow> Store \<Rightarrow> TagKeysRequest \<Rightarrow> StringIterator ret \<times> call list" where
  "TagKeys D s req =
     (case tk_TagsSource req of
        None \<Rightarrow> (Ret None (Some (errors_New ''missing read source'')), [])
      | Some any \<Rightarrow>
     (case getReadSource D any of
        Inl err \<Rightarrow> (Ret None (Some err), [])
      | Inr source \<Rightarrow>
     (case validateArgs D s (OrganizationID source) (BucketID source)
             (Start (tk_Range req)) (End (tk_Range req)) of
        ((database, rp, start, end', Some err), tr1) \<Rightarrow> (Ret None (Some err), tr1)
      | ((database, rp, start, end', None), tr1) \<Rightarrow>
     (case findShardIDs D s database rp False start end' of
        ((shardIDs, Some err), tr2) \<Rightarrow> (Ret None (Some err), tr1 @ tr2)
      | ((shardIDs, None), tr2) \<Rightarrow>
          if len shardIDs = 0 then (Ret (Some EmptyStringIterator) None, tr1 @ tr2)
          else
     (case indexPredicate D (tk_Predicate req) of
        Inl err \<Rightarrow> (Ret None (Some err), tr1 @ tr2)
      | Inr expr \<Rightarrow>
          let auth = OpenAuthorizer;
              tr3 = [Call_TagKeys auth shardIDs expr]
          in (case TSDBStore_TagKeys (TSDBStore s) auth shardIDs expr of
                (keys, Some err) \<Rightarrow> (Ret (Some EmptyStringIterator) (Some err), tr1 @ tr2 @ tr3)
              | (keys, None) \<Rightarrow>
                  let m = fold (\<lambda>ks m. fold (\<lambda>k m. m(k \<mapsto> True)) (Keys ks) m) keys
                            [measurementKey D \<mapsto> True, fieldKey D \<mapsto> True];
                      names = sorted_list_of_set (dom m)
                  in (Ret (Some (NewStringSliceIterator names)) None, tr1 @ tr2 @ tr3)))))))"

definition cursorHasData :: "Cursor \<Rightarrow> string + bool" where
  "cursorHasData c =
     (case c of
        IntegerArrayCursor typedCur \<Rightarrow> Inr (length (Next typedCur) \<noteq> 0)
      | FloatArrayCursor typedCur \<Rightarrow> Inr (length (Next typedCur) \<noteq> 0)
      | UnsignedArrayCursor typedCur \<Rightarrow> Inr (length (Next typedCur) \<noteq> 0)
      | BooleanArrayCursor typedCur \<Rightarrow> Inr (length (Next typedCur) \<noteq> 0)
      | StringArrayCursor typedCur \<Rightarrow> Inr (length (Next typedCur) \<noteq> 0)
      | OtherCursor t \<Rightarrow> Inl (''unreachable: '' @ t))"

text \<open>
  The loop \<^verbatim>\<open>for rs.Next() { ... }\<close> of \<^verbatim>\<open>tagValuesSlow\<close> over the series of the result
  set, with the set \<open>m\<close> of the values found so far. \<open>Inl\<close> is a panic.
\<close>

fun tagValuesSlow_loop ::
  "string \<Rightarrow> (Tags \<times> Cursor option) list \<Rightarrow> string set \<Rightarrow> string + string set" where
  "tagValuesSlow_loop tagKey [] m = Inr m"
| "tagValuesSlow_loop tagKey ((tags, None) # rest) m = tagValuesSlow_loop tagKey rest m"
| "tagValuesSlow_loop tagKey ((tags, Some c) # rest) m =
     (case cursorHasData c of
        Inl msg \<Rightarrow> Inl msg
      | Inr has \<Rightarrow>
          if has then tagValuesSlow_loop tagKey rest (insert (Get tags tagKey) m)
          else tagValuesSlow_loop tagKey rest m)"

definition tagValuesSlow ::
  "Deps \<Rightarrow> Store \<Rightarrow> metaqueryAttributes \<Rightarrow> string \<Rightarrow> StringIterator ret \<times> call list" where
  "tagValuesSlow D s mqAttrs tagKey =
     (case findShardIDs D s (mq_db mqAttrs) (mq_rp mqAttrs) False
             (mq_start mqAttrs) (mq_end mqAttrs) of
        ((shardIDs, Some err), tr1) \<Rightarrow> (Ret None (Some err), tr1)
      | ((shardIDs, None), tr1) \<Rightarrow>
          if len shardIDs = 0 then (Ret (Some EmptyStringIterator) None, tr1)
          else
            let shards = TSDBStore_Shards (TSDBStore s) shardIDs;
                tr2 = [Call_Shards shardIDs,
                       Call_newIndexSeriesCursorInfluxQLPred (mq_pred mqAttrs) shards]
            in (case newIndexSeriesCursorInfluxQLPred D (mq_pred mqAttrs) shards of
                  (ic, Some err) \<Rightarrow> (Ret None (Some err), tr1 @ tr2)
                | (None, None) \<Rightarrow> (Ret None None, tr1 @ tr2)
                | (Some cur, None) \<Rightarrow>
                    let rs = NewFilteredResultSet (mq_start mqAttrs) (mq_end mqAttrs) cur
                    in (case tagValuesSlow_loop tagKey (series D rs) {} of
                          Inl msg \<Rightarrow> (Panic msg, tr1 @ tr2)
                        | Inr m \<Rightarrow>
                            (Ret (Some (NewStringSliceIterator (sorted_list_of_set m))) None,
                             tr1 @ tr2))))"

definition MeasurementNames ::
  "Deps \<Rightarrow> Store \<Rightarrow> metaqueryAttributes \<Rightarrow> StringIterator ret \<times> call list" where
  "MeasurementNames D s mqAttrs =
     (if mq_pred mqAttrs \<noteq> None \<and> fst (HasFieldKeyOrValue D (mq_pred mqAttrs))
      then tagValuesSlow D s mqAttrs (measurementKey D)
      else
        let auth = OpenAuthorizer;
            tr = [Call_MeasurementNames auth (mq_db mqAttrs) (mq_pred mqAttrs)]
        in (case TSDBStore_MeasurementNames (TSDBStore s) auth (mq_db mqAttrs) (mq_pred mqAttrs) of
              (values, Some err) \<Rightarrow> (Ret None (Some err), tr)
            | (values, None) \<Rightarrow>
                let m = fold (\<lambda>name m. insert name m) values {}
                in (Ret (Some (NewStringSliceIterator (sorted_list_of_set m))) None, tr)))"

text \<open>
  The loop of \<^verbatim>\<open>measurementFields\<close> that drains the float iterator. \<open>Inl\<close> is the panic of
  the type assertion \<^verbatim>\<open>p.Aux[0].(string)\<close> on a value that is not a string.
\<close>

fun fieldNames_loop :: "FloatPoint list \<Rightarrow> string list \<Rightarrow> string + string list" where
  "fieldNames_loop [] fieldNames = Inr fieldNames"
| "fieldNames_loop (p # ps) fieldNames =
     (if length (Aux p) \<ge> 1 then
        (case hd (Aux p) of
           String name \<Rightarrow> fieldNames_loop ps (fieldNames @ [name])
         | _ \<Rightarrow> Inl ''interface conversion: interface {} is not string'')
      else fieldNames_loop ps fieldNames)"

definition measurementFields ::
  "Deps \<Rightarrow> Store \<Rightarrow> metaqueryAttributes \<Rightarrow> StringIterator ret \<times> call list" where
  "measurementFields D s mqAttrs =
     (if mq_pred mqAttrs \<noteq> None \<and> fst (HasFieldKeyOrValue D (mq_pred mqAttrs))
      then tagValuesSlow D s mqAttrs (fieldKey D)
      else if mq_pred mqAttrs \<noteq> None \<and> hasTagKey D (mq_pred mqAttrs)
      then tagValuesSlow D s mqAttrs (fieldKey D)
      else
     (case findShardIDs D s (mq_db mqAttrs) (mq_rp mqAttrs) False
             (mq_start mqAttrs) (mq_end mqAttrs) of
        ((shardIDs, Some err), tr1) \<Rightarrow> (Ret None (Some err), tr1)
      | ((shardIDs, None), tr1) \<Rightarrow>
          if len shardIDs = 0 then (Ret (Some EmptyStringIterator) None, tr1)
          else
            let sg = TSDBStore_ShardGroup (TSDBStore s) shardIDs;
                ms = \<lparr>Database = mq_db mqAttrs, RetentionPolicyName = mq_rp mqAttrs,
                      SystemIterator = ''_fieldKeys''\<rparr>;
                opts = \<lparr>OrgID = mq_orgID mqAttrs, Condition = mq_pred mqAttrs,
                        Authorizer = OpenAuthorizer\<rparr>;
                tr2 = [Call_ShardGroup shardIDs, Call_CreateIterator ms opts]
            in (case CreateIterator sg ms opts of
                  (iter, Some err) \<Rightarrow> (Ret None (Some err), tr1 @ tr2)
                | (Some (FloatIterator fitr), None) \<Rightarrow>
                    (case fieldNames_loop fitr [] of
                       Inl msg \<Rightarrow> (Panic msg, tr1 @ tr2)
                     | Inr fieldNames \<Rightarrow>
                         (Ret (Some (NewStringSliceIterator
                                       (MergeSortedStrings D (sort fieldNames)))) None,
                          tr1 @ tr2))
                | (iter, None) \<Rightarrow>
                    (Panic ''interface conversion: not query.FloatIterator'', tr1 @ tr2))))"

text \<open>
  In \<^verbatim>\<open>TagValues\<close>, \<^verbatim>\<open>source.GetOrgID()\<close> (not under src/) is the organization ID of the
  read source.
\<close>

definition TagValues ::
  "Deps \<Rightarrow> Store \<Rightarrow> TagValuesRequest \<Rightarrow> StringIterator ret \<times> call list" where
  "TagValues D s req =
     (case tv_TagsSource req of
        None \<Rightarrow> (Ret None (Some (errors_New ''missing read source'')), [])
      | Some any \<Rightarrow>
     (case getReadSource D any of
        Inl err \<Rightarrow> (Ret None (Some err), [])
      | Inr source \<Rightarrow>
     (case validateArgs D s (OrganizationID source) (BucketID source)
             (Start (tv_Range req)) (End (tv_Range req)) of
        ((db, rp, start, end', Some err), tr1) \<Rightarrow> (Ret None (Some err), tr1)
      | ((db, rp, start, end', None), tr1) \<Rightarrow>
     (case metaqueryPredicate D (tv_Predicate req) of
        Inl err \<Rightarrow> (Ret None (Some err), tr1)
      | Inr influxqlPred \<Rightarrow>
          let mqAttrs = \<lparr>mq_orgID = OrganizationID source, mq_db = db, mq_rp = rp,
                         mq_start = start, mq_end = end', mq_pred = influxqlPred\<rparr>;
              tagKey = (case measurementRemap D (tv_TagKey req) of
                          Some k \<Rightarrow> k | None \<Rightarrow> tv_TagKey req)
          in
            if tagKey = ''_name'' then
              (case MeasurementNames D s mqAttrs of (r, tr) \<Rightarrow> (r, tr1 @ tr))
            else if tagKey = ''_field'' then
              (case measurementFields D s mqAttrs of (r, tr) \<Rightarrow> (r, tr1 @ tr))
            else
     (case findShardIDs D s db rp False start end' of
        ((shardIDs, Some err), tr2) \<Rightarrow> (Ret None (Some err), tr1 @ tr2)
      | ((shardIDs, None), tr2) \<Rightarrow>
          if len shardIDs = 0 then (Ret (Some EmptyStringIterator) None, tr1 @ tr2)
          else
     (case indexPredicate D (tv_Predicate req) of
        Inl err \<Rightarrow> (Ret None (Some err), tr1 @ tr2)
      | Inr expr \<Rightarrow>
          let tagKeyExpr = BinaryExpr EQ (VarRef ''_tagKey'') (StringLiteral (tv_TagKey req));
              expr' = (case expr of
                         Some e \<Rightarrow> BinaryExpr AND tagKeyExpr (ParenExpr e)
                       | None \<Rightarrow> tagKeyExpr);
              auth = OpenAuthorizer;
              tr3 = [Call_TagValues auth shardIDs (Some expr')]
          in (case TSDBStore_TagValues (TSDBStore s) auth shardIDs (Some expr') of
                (values, Some err) \<Rightarrow> (Ret None (Some err), tr1 @ tr2 @ tr3)
              | (values, None) \<Rightarrow>
                  let m = fold (\<lambda>kvs m. fold (\<lambda>kv m. insert (Value kv) m) (Values kvs) m)
                            values {};
                      names = sorted_list_of_set m
                  in (Ret (Some (NewStringSliceIterator names)) None,
                      tr1 @ tr2 @ tr3))))))))"

subsection \<open>An example deployment\<close>

text \<open>
  One concrete choice of the collaborators, on which the theorems below are instantiated:
  bucket 10 is the database \<open>000000000000000a\<close> with the retention policy \<open>autogen\<close> and
  one shard group, covering the nanoseconds 0 to 86400, with the single shard 1.
\<close>

definition ex_meta :: MetaClient where
  "ex_meta =
     \<lparr>MetaClient_Database = (\<lambda>name.
        if name = ''000000000000000a''
        then Some \<lparr>RetentionPolicy = (\<lambda>rp. if rp = ''autogen'' then Some \<lparr>Name = rp\<rparr> else None)\<rparr>
        else None),
      MetaClient_ShardGroupsByTimeRange = (\<lambda>database rp tmin tmax.
        if sint tmin < 86400 \<and> 0 \<le> sint tmax
        then (Some [\<lparr>StartTime = 0, EndTime = 86400, Shards = [\<lparr>ID = 1\<rparr>]\<rparr>], None)
        else (None, None))\<rparr>"

definition ex_tsdb :: TSDBStore where
  "ex_tsdb =
     \<lparr>TSDBStore_MeasurementNames = (\<lambda>auth database cond. ([''mem'', ''cpu''], None)),
      TSDBStore_ShardGroup = (\<lambda>ids.
        \<lparr>CreateIterator = (\<lambda>ms opts.
           (Some (FloatIterator [\<lparr>Aux = [String ''load'']\<rparr>, \<lparr>Aux = [String ''idle'']\<rparr>,
                                 \<lparr>Aux = []\<rparr>, \<lparr>Aux = [String ''idle'']\<rparr>]), None))\<rparr>),
      TSDBStore_Shards = (\<lambda>ids. map Shard (elems ids)),
      TSDBStore_TagKeys = (\<lambda>auth ids cond.
        ([\<lparr>Measurement = ''cpu'', Keys = [''region'', ''host'']\<rparr>,
          \<lparr>Measurement = ''mem'', Keys = [''host'']\<rparr>], None)),
      TSDBStore_TagValues = (\<lambda>auth ids cond.
        ([\<lparr>tv_Measurement = ''cpu'',
           Values = [\<lparr>Key = ''host'', Value = ''b''\<rparr>, \<lparr>Key = ''host'', Value = ''a''\<rparr>]\<rparr>,
          \<lparr>tv_Measurement = ''mem'', Values = [\<lparr>Key = ''host'', Value = ''a''\<rparr>]\<rparr>], None))\<rparr>"

definition ex_store :: Store where
  "ex_store = \<lparr>TSDBStore = ex_tsdb, MetaClient = ex_meta\<rparr>"

fun ex_toExpr :: "(string \<rightharpoonup> string) \<Rightarrow> Node \<Rightarrow> Expr option" where
  "ex_toExpr remap (LogicalExpression op [a, b]) =
     (case (ex_toExpr remap a, ex_toExpr remap b) of
        (Some l, Some r) \<Rightarrow> Some (BinaryExpr op l r) | _ \<Rightarrow> None)"
| "ex_toExpr remap (ComparisonExpression op [a, b]) =
     (case (ex_toExpr remap a, ex_toExpr remap b) of
        (Some l, Some r) \<Rightarrow> Some (BinaryExpr op l r) | _ \<Rightarrow> None)"
| "ex_toExpr remap (ParenExpression [a]) = map_option ParenExpr (ex_toExpr remap a)"
| "ex_toExpr remap (TagRef k) = Some (VarRef (case remap k of Some k' \<Rightarrow> k' | None \<Rightarrow> k))"
| "ex_toExpr remap (FieldRef k) = Some (VarRef ''$'')"
| "ex_toExpr remap (LiteralString v) = Some (StringLiteral v)"
| "ex_toExpr remap (LiteralBool v) = Some (BooleanLiteral v)"
| "ex_toExpr remap (LiteralInteger v) = Some (IntegerLiteral v)"
| "ex_toExpr remap (LiteralRegex v) = Some (RegexLiteral v)"
| "ex_toExpr remap _ = None"

fun ex_refs :: "Expr \<Rightarrow> string list" where
  "ex_refs (BinaryExpr op l r) = ex_refs l @ ex_refs r"
| "ex_refs (ParenExpr e) = ex_refs e"
| "ex_refs (VarRef v) = [v]"
| "ex_refs _ = []"

fun ex_rewrite :: "Expr \<Rightarrow> Expr" where
  "ex_rewrite (BinaryExpr op l r) =
     (case ex_rewrite l of
        VarRef v \<Rightarrow> if v = ''_field'' \<or> v = ''$'' then BooleanLiteral True
                    else BinaryExpr op (VarRef v) (ex_rewrite r)
      | l' \<Rightarrow> BinaryExpr op l' (ex_rewrite r))"
| "ex_rewrite (ParenExpr e) = ParenExpr (ex_rewrite e)"
| "ex_rewrite e = e"

fun ex_reduce :: "Expr \<Rightarrow> Expr" where
  "ex_reduce (BinaryExpr op l r) =
     (let l' = ex_reduce l; r' = ex_reduce r in
      if op = AND then
        (if l' = BooleanLiteral False \<or> r' = BooleanLiteral False then BooleanLiteral False
         else if l' = BooleanLiteral True then r'
         else if r' = BooleanLiteral True then l'
         else BinaryExpr op l' r')
      else if op = OR then
        (if l' = BooleanLiteral True \<or> r' = BooleanLiteral True then BooleanLiteral True
         else if l' = BooleanLiteral False then r'
         else if r' = BooleanLiteral False then l'
         else BinaryExpr op l' r')
      else BinaryExpr op l' r')"
| "ex_reduce (ParenExpr e) =
     (case ex_reduce e of BinaryExpr op l r \<Rightarrow> ParenExpr (BinaryExpr op l r) | e' \<Rightarrow> e')"
| "ex_reduce e = e"

definition ex_series :: "(Tags \<times> Cursor option) list" where
  "ex_series =
     [([(''_field'', ''load''), (''_measurement'', ''cpu''), (''host'', ''b'')],
         Some (FloatArrayCursor [[1, 2], [3]])),
      ([(''_field'', ''load''), (''_measurement'', ''cpu''), (''host'', ''c'')],
         Some (IntegerArrayCursor [[]])),
      ([(''_field'', ''load''), (''_measurement'', ''cpu''), (''host'', ''d'')], None),
      ([(''_field'', ''idle''), (''_measurement'', ''cpu''), (''host'', ''a'')],
         Some (StringArrayCursor [[5]])),
      ([(''_field'', ''idle''), (''_measurement'', ''cpu''), (''host'', ''b'')],
         Some (BooleanArrayCursor [[7]]))]"

definition ex_deps :: Deps where
  "ex_deps =
     \<lparr>MinNanoTime = - 9223372036854775806,
      MaxNanoTime = 9223372036854775806,
      DefaultRetentionPolicyName = ''autogen'',
      ID_String = (\<lambda>n. if n = 10 then ''000000000000000a'' else ''0000000000000000''),
      UnmarshalAny = (\<lambda>any.
        case Bytes any of
          [org, bucket] \<Rightarrow> (\<lparr>BucketID = ucast bucket, OrganizationID = ucast org\<rparr>, None)
        | _ \<Rightarrow> (\<lparr>BucketID = 0, OrganizationID = 0\<rparr>, Some (errors_New ''unexpected EOF''))),
      sort_ShardGroupInfos = (\<lambda>groups. groups),
      sort_Reverse_ShardGroupInfos = rev,
      measurementRemap = [''_measurement'' \<mapsto> ''_name''],
      measurementKey = ''_measurement'',
      fieldKey = ''_field'',
      NodeToExpr = (\<lambda>root remap.
        case ex_toExpr remap root of
          None \<Rightarrow> (None, Some (errors_New ''invalid expression''))
        | Some e \<Rightarrow> (Some e, None)),
      HasFieldValueKey = (\<lambda>expr. case expr of None \<Rightarrow> False | Some e \<Rightarrow> ''$'' \<in> set (ex_refs e)),
      Reduce = map_option ex_reduce,
      RewriteExprRemoveFieldKeyAndValue = map_option ex_rewrite,
      HasFieldKeyOrValue = (\<lambda>expr.
        case expr of None \<Rightarrow> (False, False)
        | Some e \<Rightarrow> (''_field'' \<in> set (ex_refs e), ''$'' \<in> set (ex_refs e))),
      hasTagKey = (\<lambda>expr.
        case expr of None \<Rightarrow> False
        | Some e \<Rightarrow> \<exists>v \<in> set (ex_refs e). v \<noteq> ''_field'' \<and> v \<noteq> ''_name'' \<and> v \<noteq> ''$''),
      newIndexSeriesCursor = (\<lambda>p shards. (Some (SeriesCursor 0), None)),
      newIndexSeriesCursorInfluxQLPred = (\<lambda>p shards. (Some (SeriesCursor 1), None)),
      NewGroupResultSet = (\<lambda>req newCursor. Some (GroupResultSet 0)),
      series = (\<lambda>rs. ex_series),
      MergeSortedStrings = remdups_adj\<rparr>"

definition ex_source :: Any where
  "ex_source = \<lparr>TypeUrl = ''ReadSource'', Bytes = [1, 10]\<rparr>"

section \<open>Properties\<close>

subsection \<open>The example deployment, evaluated\<close>

lemma ex_validateArgs:
  "validateArgs ex_deps ex_store org 10 st en =
     ((''000000000000000a'', ''autogen'',
       (if sint st \<le> 0 then - 9223372036854775806 else st),
       (if sint en \<le> 0 then 9223372036854775806 else en), None),
      [Call_Database ''000000000000000a''])"
  by (simp add: validateArgs_def ex_deps_def ex_store_def ex_meta_def Let_def)

lemma ex_getReadSource:
  "getReadSource ex_deps ex_source = Inr \<lparr>BucketID = 10, OrganizationID = 1\<rparr>"
  by (simp add: getReadSource_def GetReadSource_def ex_deps_def ex_source_def)

lemma ex_findShardIDs_none:
  "findShardIDs ex_deps ex_store database rp desc 90000 100000 =
     ((None, None), [Call_ShardGroupsByTimeRange database rp 90000 100000])"
  by (simp add: findShardIDs_def ex_store_def ex_meta_def Let_def len_def)

lemma ex_findShardIDs_some:
  "findShardIDs ex_deps ex_store database rp False (- 9223372036854775806) 9223372036854775806 =
     ((Some [1], None),
      [Call_ShardGroupsByTimeRange database rp (- 9223372036854775806) 9223372036854775806])"
  by (simp add: findShardIDs_def ex_store_def ex_meta_def ex_deps_def Let_def len_def elems_def)

lemma ex_ReadFilter_open_range:
  "ReadFilter ex_deps ex_store
     \<lparr>rf_ReadSource = Some ex_source, rf_Range = \<lparr>Start = 0, End = 0\<rparr>, rf_Predicate = None\<rparr> =
   ((Ret (Some (NewFilteredResultSet (- 9223372036854775806) 9223372036854775806
                  (SeriesCursor 0))) None,
     \<lparr>rf_ReadSource = Some ex_source,
      rf_Range = \<lparr>Start = - 9223372036854775806, End = 9223372036854775806\<rparr>,
      rf_Predicate = None\<rparr>),
    [Call_Database ''000000000000000a'',
     Call_ShardGroupsByTimeRange ''000000000000000a'' ''autogen''
       (- 9223372036854775806) 9223372036854775806,
     Call_Shards (Some [1]),
     Call_newIndexSeriesCursor None [Shard 1]])"
  apply (simp add: ReadFilter_def ex_getReadSource ex_validateArgs ex_findShardIDs_some len_def)
  apply (simp add: ex_deps_def ex_store_def ex_tsdb_def elems_def)
  done

lemma ex_ReadFilter_no_shards:
  "ReadFilter ex_deps ex_store
     \<lparr>rf_ReadSource = Some ex_source, rf_Range = \<lparr>Start = 90000, End = 100000\<rparr>,
      rf_Predicate = None\<rparr> =
   ((Ret None None,
     \<lparr>rf_ReadSource = Some ex_source, rf_Range = \<lparr>Start = 90000, End = 100000\<rparr>,
      rf_Predicate = None\<rparr>),
    [Call_Database ''000000000000000a'',
     Call_ShardGroupsByTimeRange ''000000000000000a'' ''autogen'' 90000 100000])"
  by (simp add: ReadFilter_def ex_getReadSource ex_validateArgs ex_findShardIDs_none len_def)

lemma ex_ReadGroup_no_shards:
  "ReadGroup ex_deps ex_store
     \<lparr>rg_ReadSource = Some ex_source, rg_Range = \<lparr>Start = 90000, End = 100000\<rparr>,
      rg_Predicate = None, rg_GroupKeys = []\<rparr> =
   ((Ret None None,
     \<lparr>rg_ReadSource = Some ex_source, rg_Range = \<lparr>Start = 90000, End = 100000\<rparr>,
      rg_Predicate = None, rg_GroupKeys = []\<rparr>),
    [Call_Database ''000000000000000a'',
     Call_ShardGroupsByTimeRange ''000000000000000a'' ''autogen'' 90000 100000])"
  by (simp add: ReadGroup_def ex_getReadSource ex_validateArgs ex_findShardIDs_none len_def)

subsection \<open>The calls of the two resolvers\<close>

lemma validateArgs_calls:
  "list_all is_meta_call (snd (validateArgs D s orgID bucketID start end'))"
  by (simp add: validateArgs_def Let_def split: option.splits)

lemma findShardIDs_calls:
  "list_all is_meta_call (snd (findShardIDs D s database rp desc start end'))"
  by (simp add: findShardIDs_def Let_def split: option.splits prod.splits)

lemma findShardIDs_no_groups:
  assumes "MetaClient_ShardGroupsByTimeRange (MetaClient s) database rp start end' = (groups, None)"
      and "len groups = 0"
  shows "findShardIDs D s database rp desc start end' =
           ((None, None), [Call_ShardGroupsByTimeRange database rp start end'])"
  using assms by (simp add: findShardIDs_def Let_def)

subsection \<open>Range and identity resolution\<close>



text \<open>
  C9. \<^verbatim>\<open>validateArgs\<close> never reads its organization ID: two calls that differ only in
  the organization ID return the same database, retention policy, start, end and error,
  and make the same call to the metadata service.
\<close>

theorem validateArgs_ignores_orgID:
  "validateArgs D s orgID1 bucketID start end' = validateArgs D s orgID2 bucketID start end'"
  by (simp add: validateArgs_def)

subsection \<open>ReadFilter and the request's range\<close>

text \<open>
  C10. \<^verbatim>\<open>ReadFilter\<close> changes the request only when it returns a result set. Whenever it
  returns anything else (a missing read source, a source that does not decode, a
  validation error, a shard-lookup error, no shards, a cursor error, a nil cursor), the
  request is the one it was given. When it returns a result set, every step before has
  succeeded with a non-nil cursor, and the request differs from the given one only in
  its range, which holds the clamped start and end.
\<close>

theorem ReadFilter_writes_range_only_on_success:
  assumes "ReadFilter D s req = ((r, req'), tr)"
  shows "((\<forall>rs. r \<noteq> Ret (Some rs) None) \<longrightarrow> req' = req) \<and>
         (\<forall>rs. r = Ret (Some rs) None \<longrightarrow>
            (\<exists>any source database rp start end' tr1 shardIDs tr2 cur.
               rf_ReadSource req = Some any \<and> getReadSource D any = Inr source \<and>
               validateArgs D s (OrganizationID source) (BucketID source)
                 (Start (rf_Range req)) (End (rf_Range req)) =
                   ((database, rp, start, end', None), tr1) \<and>
               findShardIDs D s database rp False start end' = ((shardIDs, None), tr2) \<and>
               len shardIDs \<noteq> 0 \<and>
               newIndexSeriesCursor D (rf_Predicate req)
                   (TSDBStore_Shards (TSDBStore s) shardIDs) = (Some cur, None) \<and>
               rs = NewFilteredResultSet start end' cur \<and>
               req' = req\<lparr>rf_Range := (rf_Range req)\<lparr>Start := start, End := end'\<rparr>\<rparr>))"
  using assms
  unfolding ReadFilter_def
  by (auto simp: Let_def split: option.splits sum.splits prod.splits if_splits)

theorem ReadFilter_writes_range_only_on_success_witness:
  "ReadFilter ex_deps ex_store
     \<lparr>rf_ReadSource = Some ex_source, rf_Range = \<lparr>Start = 90000, End = 100000\<rparr>,
      rf_Predicate = None\<rparr> =
   ((Ret None None,
     \<lparr>rf_ReadSource = Some ex_source, rf_Range = \<lparr>Start = 90000, End = 100000\<rparr>,
      rf_Predicate = None\<rparr>),
    [Call_Database ''000000000000000a'',
     Call_ShardGroupsByTimeRange ''000000000000000a'' ''autogen'' 90000 100000]) \<and>
   (\<exists>r req' tr.
      ReadFilter ex_deps ex_store
        \<lparr>rf_ReadSource = Some ex_source, rf_Range = \<lparr>Start = 0, End = 0\<rparr>,
         rf_Predicate = None\<rparr> = ((r, req'), tr) \<and>
      r = Ret (Some (NewFilteredResultSet (- 9223372036854775806) 9223372036854775806
                       (SeriesCursor 0))) None \<and>
      rf_Range req' = \<lparr>Start = - 9223372036854775806, End = 9223372036854775806\<rparr>)"
proof -
  note early = ReadFilter_writes_range_only_on_success [OF ex_ReadFilter_no_shards]
  note success = ReadFilter_writes_range_only_on_success [OF ex_ReadFilter_open_range]
  from early success show ?thesis
    by (simp add: ex_ReadFilter_no_shards ex_ReadFilter_open_range)
qed

subsection \<open>No shards in the range\<close>

lemma ex_TagKeys_no_shards_field_value:
  "TagKeys ex_deps ex_store
     \<lparr>tk_TagsSource = Some ex_source, tk_Range = \<lparr>Start = 90000, End = 100000\<rparr>,
      tk_Predicate =
        Some \<lparr>Root = Some (ComparisonExpression GT [FieldRef ''_value'', LiteralInteger 10])\<rparr>\<rparr> =
   (Ret (Some EmptyStringIterator) None,
    [Call_Database ''000000000000000a'',
     Call_ShardGroupsByTimeRange ''000000000000000a'' ''autogen'' 90000 100000])"
  by (simp add: TagKeys_def ex_getReadSource ex_validateArgs ex_findShardIDs_none len_def)

text \<open>
  C1, as the code has it. When the metadata service returns no shard group for the
  range, \<^verbatim>\<open>findShardIDs\<close> returns the nil slice and no error. An entry point that gets a
  shard-ID list of length 0 returns at once, having called the metadata service only:
  \<^verbatim>\<open>TagKeys\<close>, \<^verbatim>\<open>TagValues\<close> (for a tag key that is not remapped to \<^verbatim>\<open>_name\<close>),
  \<^verbatim>\<open>measurementFields\<close> and \<^verbatim>\<open>tagValuesSlow\<close> return \<^verbatim>\<open>cursors.EmptyStringIterator\<close>
  and a nil error, \<^verbatim>\<open>ReadFilter\<close> and \<^verbatim>\<open>ReadGroup\<close> return a nil result set and a nil
  error, and leave the request as it was.
\<close>

theorem zero_shards_short_circuit:
  assumes src: "getReadSource D any = Inr source"
      and val: "validateArgs D s (OrganizationID source) (BucketID source) start0 end0 =
                  ((database, rp, start, end', None), tr1)"
      and fnd: "findShardIDs D s database rp False start end' = ((shardIDs, None), tr2)"
      and zero: "len shardIDs = 0"
  shows "(\<forall>groups desc.
            MetaClient_ShardGroupsByTimeRange (MetaClient s) database rp start end' =
              (groups, None) \<and> len groups = 0 \<longrightarrow>
            findShardIDs D s database rp desc start end' =
              ((None, None), [Call_ShardGroupsByTimeRange database rp start end'])) \<and>
         (\<forall>req. rf_ReadSource req = Some any \<and>
            rf_Range req = \<lparr>Start = start0, End = end0\<rparr> \<longrightarrow>
            ReadFilter D s req = ((Ret None None, req), tr1 @ tr2)) \<and>
         (\<forall>req. rg_ReadSource req = Some any \<and>
            rg_Range req = \<lparr>Start = start0, End = end0\<rparr> \<longrightarrow>
            ReadGroup D s req = ((Ret None None, req), tr1 @ tr2)) \<and>
         (\<forall>req. tk_TagsSource req = Some any \<and>
            tk_Range req = \<lparr>Start = start0, End = end0\<rparr> \<longrightarrow>
            TagKeys D s req = (Ret (Some EmptyStringIterator) None, tr1 @ tr2)) \<and>
         (\<forall>req p. tv_TagsSource req = Some any \<and>
            tv_Range req = \<lparr>Start = start0, End = end0\<rparr> \<and>
            metaqueryPredicate D (tv_Predicate req) = Inr p \<and>
            (case measurementRemap D (tv_TagKey req) of Some k \<Rightarrow> k | None \<Rightarrow> tv_TagKey req)
              \<noteq> ''_name'' \<longrightarrow>
            TagValues D s req = (Ret (Some EmptyStringIterator) None, tr1 @ tr2)) \<and>
         (\<forall>mqAttrs. mq_db mqAttrs = database \<and> mq_rp mqAttrs = rp \<and>
            mq_start mqAttrs = start \<and> mq_end mqAttrs = end' \<longrightarrow>
            measurementFields D s mqAttrs = (Ret (Some EmptyStringIterator) None, tr2) \<and>
            (\<forall>tagKey. tagValuesSlow D s mqAttrs tagKey =
               (Ret (Some EmptyStringIterator) None, tr2))) \<and>
         list_all is_meta_call (tr1 @ tr2)"
proof -
  have slow: "tagValuesSlow D s mqAttrs tagKey = (Ret (Some EmptyStringIterator) None, tr2)"
    if "mq_db mqAttrs = database" "mq_rp mqAttrs = rp" "mq_start mqAttrs = start"
       "mq_end mqAttrs = end'" for mqAttrs tagKey
    using that fnd zero by (simp add: tagValuesSlow_def)
  have fields: "measurementFields D s mqAttrs = (Ret (Some EmptyStringIterator) None, tr2)"
    if "mq_db mqAttrs = database" "mq_rp mqAttrs = rp" "mq_start mqAttrs = start"
       "mq_end mqAttrs = end'" for mqAttrs
    using that fnd zero slow [OF that] by (simp add: measurementFields_def)
  have rf: "ReadFilter D s req = ((Ret None None, req), tr1 @ tr2)"
    if "rf_ReadSource req = Some any" "rf_Range req = \<lparr>Start = start0, End = end0\<rparr>" for req
    using that src val fnd zero by (simp add: ReadFilter_def)
  have rg: "ReadGroup D s req = ((Ret None None, req), tr1 @ tr2)"
    if "rg_ReadSource req = Some any" "rg_Range req = \<lparr>Start = start0, End = end0\<rparr>" for req
    using that src val fnd zero by (simp add: ReadGroup_def)
  have tk: "TagKeys D s req = (Ret (Some EmptyStringIterator) None, tr1 @ tr2)"
    if "tk_TagsSource req = Some any" "tk_Range req = \<lparr>Start = start0, End = end0\<rparr>" for req
    using that src val fnd zero by (simp add: TagKeys_def)
  have tv: "TagValues D s req = (Ret (Some EmptyStringIterator) None, tr1 @ tr2)"
    if "tv_TagsSource req = Some any" "tv_Range req = \<lparr>Start = start0, End = end0\<rparr>"
       "metaqueryPredicate D (tv_Predicate req) = Inr p"
       "(case measurementRemap D (tv_TagKey req) of Some k \<Rightarrow> k | None \<Rightarrow> tv_TagKey req)
          \<noteq> ''_name''" for req p
    using that src val fnd zero by (simp add: TagValues_def Let_def fields)
  have calls: "list_all is_meta_call (tr1 @ tr2)"
    using validateArgs_calls [of D s "OrganizationID source" "BucketID source" start0 end0]
      findShardIDs_calls [of D s database rp False start end']
    by (simp add: val fnd)
  show ?thesis
    using findShardIDs_no_groups slow fields rf rg tk tv calls by blast
qed

theorem zero_shards_short_circuit_witness:
  "TagKeys ex_deps ex_store
     \<lparr>tk_TagsSource = Some ex_source, tk_Range = \<lparr>Start = 90000, End = 100000\<rparr>,
      tk_Predicate = None\<rparr> =
   (Ret (Some EmptyStringIterator) None,
    [Call_Database ''000000000000000a'',
     Call_ShardGroupsByTimeRange ''000000000000000a'' ''autogen'' 90000 100000]) \<and>
   TagValues ex_deps ex_store
     \<lparr>tv_TagsSource = Some ex_source, tv_Range = \<lparr>Start = 90000, End = 100000\<rparr>,
      tv_Predicate = None, tv_TagKey = ''host''\<rparr> =
   (Ret (Some EmptyStringIterator) None,
    [Call_Database ''000000000000000a'',
     Call_ShardGroupsByTimeRange ''000000000000000a'' ''autogen'' 90000 100000]) \<and>
   tagValuesSlow ex_deps ex_store
     \<lparr>mq_orgID = 1, mq_db = ''000000000000000a'', mq_rp = ''autogen'', mq_start = 90000,
      mq_end = 100000, mq_pred = None\<rparr> ''host'' =
   (Ret (Some EmptyStringIterator) None,
    [Call_ShardGroupsByTimeRange ''000000000000000a'' ''autogen'' 90000 100000]) \<and>
   list_all is_meta_call
    [Call_Database ''000000000000000a'',
     Call_ShardGroupsByTimeRange ''000000000000000a'' ''autogen'' 90000 100000]"
proof -
  have val: "validateArgs ex_deps ex_store (OrganizationID \<lparr>BucketID = 10, OrganizationID = 1\<rparr>)
       (BucketID \<lparr>BucketID = 10, OrganizationID = 1\<rparr>) 90000 100000 =
     ((''000000000000000a'', ''autogen'', 90000, 100000, None),
      [Call_Database ''000000000000000a''])"
    by (simp add: ex_validateArgs)
  have zero: "len (None :: uint64 slice) = 0"
    by (simp add: len_def)
  have mq: "metaqueryPredicate ex_deps None = Inr None"
    by (simp add: metaqueryPredicate_def GetRoot_def)
  have remap: "measurementRemap ex_deps ''host'' = None"
    by (simp add: ex_deps_def)
  note zs = zero_shards_short_circuit [OF ex_getReadSource val ex_findShardIDs_none zero]
  from zs mq remap show ?thesis
    by simp
qed

text \<open>
  With no shard group in the range 90000 to 100000, \<^verbatim>\<open>findShardIDs\<close> returns the nil
  slice, and \<^verbatim>\<open>ReadFilter\<close> and \<^verbatim>\<open>ReadGroup\<close> return a nil result set.
\<close>

theorem zero_shards_nil_counterexample:
  "findShardIDs ex_deps ex_store ''000000000000000a'' ''autogen'' False 90000 100000 =
     ((None, None),
      [Call_ShardGroupsByTimeRange ''000000000000000a'' ''autogen'' 90000 100000]) \<and>
   fst (fst (ReadFilter ex_deps ex_store
     \<lparr>rf_ReadSource = Some ex_source, rf_Range = \<lparr>Start = 90000, End = 100000\<rparr>,
      rf_Predicate = None\<rparr>)) = Ret None None \<and>
   fst (fst (ReadGroup ex_deps ex_store
     \<lparr>rg_ReadSource = Some ex_source, rg_Range = \<lparr>Start = 90000, End = 100000\<rparr>,
      rg_Predicate = None, rg_GroupKeys = []\<rparr>)) = Ret None None"
  by (simp add: ex_findShardIDs_none ex_ReadFilter_no_shards ex_ReadGroup_no_shards)

subsection \<open>Predicates on field values\<close>

lemma ex_validateArgs_open:
  "validateArgs ex_deps ex_store (OrganizationID \<lparr>BucketID = 10, OrganizationID = 1\<rparr>)
     (BucketID \<lparr>BucketID = 10, OrganizationID = 1\<rparr>) 0 0 =
     ((''000000000000000a'', ''autogen'', - 9223372036854775806, 9223372036854775806, None),
      [Call_Database ''000000000000000a''])"
  by (simp add: ex_validateArgs)

lemma ex_NodeToExpr_value:
  "NodeToExpr ex_deps (ComparisonExpression GT [FieldRef ''_value'', LiteralInteger 10])
     (measurementRemap ex_deps) =
   (Some (BinaryExpr GT (VarRef ''$'') (IntegerLiteral 10)), None)"
  by (simp add: ex_deps_def)

lemma ex_HasFieldValueKey_value:
  "HasFieldValueKey ex_deps (Some (BinaryExpr GT (VarRef ''$'') (IntegerLiteral 10)))"
  by (simp add: ex_deps_def)

text \<open>
  C2, as the code has it. Take a request whose read source decodes and validates and
  whose wire predicate translates, without error, to an expression that references a field
  value. \<^verbatim>\<open>TagValues\<close> then fails with the error "field values unsupported" having made
  only the call of \<^verbatim>\<open>validateArgs\<close>. \<^verbatim>\<open>TagKeys\<close> looks the shards up first: when the
  shard-ID list is not empty it fails with the same error, having called only the
  metadata service. Neither returns an iterator, so the predicate is not dropped.
\<close>

theorem field_value_predicate_rejected:
  assumes src: "getReadSource D any = Inr source"
      and val: "validateArgs D s (OrganizationID source) (BucketID source) start0 end0 =
                  ((database, rp, start, end', None), tr1)"
      and root: "GetRoot p = Some root"
      and expr: "NodeToExpr D root (measurementRemap D) = (expr, None)"
      and fv: "HasFieldValueKey D expr"
  shows "(\<forall>req. tv_TagsSource req = Some any \<and>
            tv_Range req = \<lparr>Start = start0, End = end0\<rparr> \<and> tv_Predicate req = p \<longrightarrow>
            TagValues D s req =
              (Ret None (Some (errors_New ''field values unsupported'')), tr1)) \<and>
         (\<forall>req shardIDs tr2. tk_TagsSource req = Some any \<and>
            tk_Range req = \<lparr>Start = start0, End = end0\<rparr> \<and> tk_Predicate req = p \<and>
            findShardIDs D s database rp False start end' = ((shardIDs, None), tr2) \<and>
            len shardIDs \<noteq> 0 \<longrightarrow>
            TagKeys D s req =
              (Ret None (Some (errors_New ''field values unsupported'')), tr1 @ tr2) \<and>
            list_all is_meta_call (tr1 @ tr2)) \<and>
         list_all is_meta_call tr1"
proof -
  have mq: "metaqueryPredicate D p = Inl (errors_New ''field values unsupported'')"
    using root expr fv by (simp add: metaqueryPredicate_def)
  have ip: "indexPredicate D p = Inl (errors_New ''field values unsupported'')"
    using root expr fv by (simp add: indexPredicate_def)
  have c1: "list_all is_meta_call tr1"
    using validateArgs_calls [of D s "OrganizationID source" "BucketID source" start0 end0]
    by (simp add: val)
  have tv: "TagValues D s req = (Ret None (Some (errors_New ''field values unsupported'')), tr1)"
    if "tv_TagsSource req = Some any" "tv_Range req = \<lparr>Start = start0, End = end0\<rparr>"
       "tv_Predicate req = p" for req
    using that src val mq by (simp add: TagValues_def)
  have tk: "TagKeys D s req =
              (Ret None (Some (errors_New ''field values unsupported'')), tr1 @ tr2) \<and>
            list_all is_meta_call (tr1 @ tr2)"
    if "tk_TagsSource req = Some any" "tk_Range req = \<lparr>Start = start0, End = end0\<rparr>"
       "tk_Predicate req = p"
       "findShardIDs D s database rp False start end' = ((shardIDs, None), tr2)"
       "len shardIDs \<noteq> 0" for req shardIDs tr2
    using that src val ip c1 findShardIDs_calls [of D s database rp False start end']
    by (simp add: TagKeys_def)
  show ?thesis
    using tv tk c1 by blast
qed

theorem field_value_predicate_rejected_witness:
  "TagValues ex_deps ex_store
     \<lparr>tv_TagsSource = Some ex_source, tv_Range = \<lparr>Start = 0, End = 0\<rparr>,
      tv_Predicate =
        Some \<lparr>Root = Some (ComparisonExpression GT [FieldRef ''_value'', LiteralInteger 10])\<rparr>,
      tv_TagKey = ''host''\<rparr> =
   (Ret None (Some (errors_New ''field values unsupported'')),
    [Call_Database ''000000000000000a'']) \<and>
   TagKeys ex_deps ex_store
     \<lparr>tk_TagsSource = Some ex_source, tk_Range = \<lparr>Start = 0, End = 0\<rparr>,
      tk_Predicate =
        Some \<lparr>Root = Some (ComparisonExpression GT [FieldRef ''_value'', LiteralInteger 10])\<rparr>\<rparr> =
   (Ret None (Some (errors_New ''field values unsupported'')),
    [Call_Database ''000000000000000a'',
     Call_ShardGroupsByTimeRange ''000000000000000a'' ''autogen''
       (- 9223372036854775806) 9223372036854775806])"
proof -
  have root: "GetRoot (Some \<lparr>Root = Some (ComparisonExpression GT
                 [FieldRef ''_value'', LiteralInteger 10])\<rparr>) =
              Some (ComparisonExpression GT [FieldRef ''_value'', LiteralInteger 10])"
    by (simp add: GetRoot_def)
  have nz: "len (Some [1 :: uint64]) \<noteq> 0"
    by (simp add: len_def)
  note rej = field_value_predicate_rejected [OF ex_getReadSource ex_validateArgs_open root
      ex_NodeToExpr_value ex_HasFieldValueKey_value]
  from rej nz show ?thesis
    by (simp add: ex_findShardIDs_some)
qed

text \<open>
  With no shard in the range, \<^verbatim>\<open>TagKeys\<close> returns the empty iterator and no error for a
  predicate on a field value: the predicate is never translated.
\<close>

theorem field_value_predicate_counterexample:
  "HasFieldValueKey ex_deps
     (fst (NodeToExpr ex_deps (ComparisonExpression GT [FieldRef ''_value'', LiteralInteger 10])
        (measurementRemap ex_deps))) \<and>
   TagKeys ex_deps ex_store
     \<lparr>tk_TagsSource = Some ex_source, tk_Range = \<lparr>Start = 90000, End = 100000\<rparr>,
      tk_Predicate =
        Some \<lparr>Root = Some (ComparisonExpression GT [FieldRef ''_value'', LiteralInteger 10])\<rparr>\<rparr> =
   (Ret (Some EmptyStringIterator) None,
    [Call_Database ''000000000000000a'',
     Call_ShardGroupsByTimeRange ''000000000000000a'' ''autogen'' 90000 100000])"
  by (simp add: ex_NodeToExpr_value ex_HasFieldValueKey_value ex_TagKeys_no_shards_field_value)

subsection \<open>The predicate pushed to the index\<close>

lemma ex_NodeToExpr_field:
  "NodeToExpr ex_deps (ComparisonExpression EQ [TagRef ''_field'', LiteralString ''load''])
     (measurementRemap ex_deps) =
   (Some (BinaryExpr EQ (VarRef ''_field'') (StringLiteral ''load'')), None)"
  by (simp add: ex_deps_def)

lemma ex_NodeToExpr_host:
  "NodeToExpr ex_deps (ComparisonExpression EQ [TagRef ''host'', LiteralString ''a''])
     (measurementRemap ex_deps) =
   (Some (BinaryExpr EQ (VarRef ''host'') (StringLiteral ''a'')), None)"
  by (simp add: ex_deps_def)

lemma ex_indexPredicate_host:
  "indexPredicate ex_deps
     (Some \<lparr>Root = Some (ComparisonExpression EQ [TagRef ''host'', LiteralString ''a''])\<rparr>) =
   Inr (Some (BinaryExpr EQ (VarRef ''host'') (StringLiteral ''a'')))"
  apply (simp add: indexPredicate_def GetRoot_def ex_NodeToExpr_host)
  apply (simp add: ex_deps_def CloneExpr_def IsTrueBooleanLiteral_def)
  done

lemma ex_metaqueryPredicate_host:
  "metaqueryPredicate ex_deps
     (Some \<lparr>Root = Some (ComparisonExpression EQ [TagRef ''host'', LiteralString ''a''])\<rparr>) =
   Inr (Some (BinaryExpr EQ (VarRef ''host'') (StringLiteral ''a'')))"
  apply (simp add: metaqueryPredicate_def GetRoot_def ex_NodeToExpr_host)
  apply (simp add: ex_deps_def CloneExpr_def IsTrueBooleanLiteral_def)
  done

text \<open>
  C4. Take a \<^verbatim>\<open>TagKeys\<close> or \<^verbatim>\<open>TagValues\<close> request that reaches the index (the source
  decodes and validates, the shard-ID list is not empty) and whose wire predicate
  translates to an expression without a field value that, after the removal of field
  references and the reduction, is the literal boolean true. The predicate that
  \<^verbatim>\<open>TagKeys\<close> passes to the index is then nil, and the expression that \<^verbatim>\<open>TagValues\<close>
  passes (for a tag key that is not remapped to \<^verbatim>\<open>_name\<close> or \<^verbatim>\<open>_field\<close>) is the tag-key
  equality alone: the translated predicate is absent from it, not conjoined as "true".
\<close>

theorem true_predicate_is_absent:
  assumes src: "getReadSource D any = Inr source"
      and val: "validateArgs D s (OrganizationID source) (BucketID source) start0 end0 =
                  ((database, rp, start, end', None), tr1)"
      and fnd: "findShardIDs D s database rp False start end' = ((shardIDs, None), tr2)"
      and nonzero: "len shardIDs \<noteq> 0"
      and root: "GetRoot p = Some root"
      and expr: "NodeToExpr D root (measurementRemap D) = (expr, None)"
      and nofv: "\<not> HasFieldValueKey D expr"
      and true: "Reduce D (RewriteExprRemoveFieldKeyAndValue D (CloneExpr expr)) =
                   Some (BooleanLiteral True)"
  shows "(\<forall>req. tk_TagsSource req = Some any \<and>
            tk_Range req = \<lparr>Start = start0, End = end0\<rparr> \<and> tk_Predicate req = p \<longrightarrow>
            snd (TagKeys D s req) = tr1 @ tr2 @ [Call_TagKeys OpenAuthorizer shardIDs None]) \<and>
         (\<forall>req. tv_TagsSource req = Some any \<and>
            tv_Range req = \<lparr>Start = start0, End = end0\<rparr> \<and> tv_Predicate req = p \<and>
            (case measurementRemap D (tv_TagKey req) of Some k \<Rightarrow> k | None \<Rightarrow> tv_TagKey req)
              \<noteq> ''_name'' \<and>
            (case measurementRemap D (tv_TagKey req) of Some k \<Rightarrow> k | None \<Rightarrow> tv_TagKey req)
              \<noteq> ''_field'' \<longrightarrow>
            snd (TagValues D s req) =
              tr1 @ tr2 @
              [Call_TagValues OpenAuthorizer shardIDs
                 (Some (BinaryExpr EQ (VarRef ''_tagKey'') (StringLiteral (tv_TagKey req))))])"
proof -
  have ip: "indexPredicate D p = Inr None"
    using root expr nofv true by (simp add: indexPredicate_def IsTrueBooleanLiteral_def)
  obtain q where mq: "metaqueryPredicate D p = Inr q"
    using root expr nofv by (simp add: metaqueryPredicate_def Let_def)
  have tk: "snd (TagKeys D s req) = tr1 @ tr2 @ [Call_TagKeys OpenAuthorizer shardIDs None]"
    if "tk_TagsSource req = Some any" "tk_Range req = \<lparr>Start = start0, End = end0\<rparr>"
       "tk_Predicate req = p" for req
    using that src val fnd nonzero ip
    by (simp add: TagKeys_def Let_def split: prod.splits option.splits)
  have tv: "snd (TagValues D s req) =
              tr1 @ tr2 @
              [Call_TagValues OpenAuthorizer shardIDs
                 (Some (BinaryExpr EQ (VarRef ''_tagKey'') (StringLiteral (tv_TagKey req))))]"
    if "tv_TagsSource req = Some any" "tv_Range req = \<lparr>Start = start0, End = end0\<rparr>"
       "tv_Predicate req = p"
       "(case measurementRemap D (tv_TagKey req) of Some k \<Rightarrow> k | None \<Rightarrow> tv_TagKey req)
          \<noteq> ''_name''"
       "(case measurementRemap D (tv_TagKey req) of Some k \<Rightarrow> k | None \<Rightarrow> tv_TagKey req)
          \<noteq> ''_field''" for req
    using that src val fnd nonzero ip mq
    by (simp add: TagValues_def Let_def split: prod.splits option.splits)
  show ?thesis
    using tk tv by blast
qed

theorem true_predicate_is_absent_witness:
  "snd (TagKeys ex_deps ex_store
     \<lparr>tk_TagsSource = Some ex_source, tk_Range = \<lparr>Start = 0, End = 0\<rparr>,
      tk_Predicate =
        Some \<lparr>Root = Some (ComparisonExpression EQ [TagRef ''_field'', LiteralString ''load''])\<rparr>\<rparr>) =
   [Call_Database ''000000000000000a'',
    Call_ShardGroupsByTimeRange ''000000000000000a'' ''autogen''
      (- 9223372036854775806) 9223372036854775806,
    Call_TagKeys OpenAuthorizer (Some [1]) None] \<and>
   snd (TagValues ex_deps ex_store
     \<lparr>tv_TagsSource = Some ex_source, tv_Range = \<lparr>Start = 0, End = 0\<rparr>,
      tv_Predicate =
        Some \<lparr>Root = Some (ComparisonExpression EQ [TagRef ''_field'', LiteralString ''load''])\<rparr>,
      tv_TagKey = ''host''\<rparr>) =
   [Call_Database ''000000000000000a'',
    Call_ShardGroupsByTimeRange ''000000000000000a'' ''autogen''
      (- 9223372036854775806) 9223372036854775806,
    Call_TagValues OpenAuthorizer (Some [1])
      (Some (BinaryExpr EQ (VarRef ''_tagKey'') (StringLiteral ''host'')))]"
proof -
  have root: "GetRoot (Some \<lparr>Root = Some (ComparisonExpression EQ
                 [TagRef ''_field'', LiteralString ''load''])\<rparr>) =
              Some (ComparisonExpression EQ [TagRef ''_field'', LiteralString ''load''])"
    by (simp add: GetRoot_def)
  have nz: "len (Some [1 :: uint64]) \<noteq> 0"
    by (simp add: len_def)
  have nofv: "\<not> HasFieldValueKey ex_deps
                  (Some (BinaryExpr EQ (VarRef ''_field'') (StringLiteral ''load'')))"
    by (simp add: ex_deps_def)
  have true: "Reduce ex_deps (RewriteExprRemoveFieldKeyAndValue ex_deps
                (CloneExpr (Some (BinaryExpr EQ (VarRef ''_field'') (StringLiteral ''load''))))) =
              Some (BooleanLiteral True)"
    by (simp add: ex_deps_def CloneExpr_def)
  have remap: "measurementRemap ex_deps ''host'' = None"
    by (simp add: ex_deps_def)
  note abs = true_predicate_is_absent [OF ex_getReadSource ex_validateArgs_open
      ex_findShardIDs_some nz root ex_NodeToExpr_field nofv true]
  from abs remap show ?thesis
    by simp
qed

text \<open>
  C5. In \<^verbatim>\<open>TagValues\<close>, once the source decodes and validates and the predicate
  translates, the requested tag key is looked up in the reserved-name table. When the
  remapped key is \<^verbatim>\<open>_name\<close> the request is answered by \<^verbatim>\<open>MeasurementNames\<close>, when it is
  \<^verbatim>\<open>_field\<close> by \<^verbatim>\<open>measurementFields\<close>, both on the attribute bundle of the request. For
  every other key, with shards in the range, the expression passed to the index is the
  equality of \<^verbatim>\<open>_tagKey\<close> with the requested key: alone when the translated predicate is
  absent, and otherwise as the left side of an AND whose right side is the translated
  predicate in parentheses.
\<close>

theorem TagValues_dispatch_and_tagKey_clause:
  assumes src: "getReadSource D any = Inr source"
      and val: "validateArgs D s (OrganizationID source) (BucketID source)
                  (Start (tv_Range req)) (End (tv_Range req)) =
                  ((database, rp, start, end', None), tr1)"
      and tsrc: "tv_TagsSource req = Some any"
      and mq: "metaqueryPredicate D (tv_Predicate req) = Inr influxqlPred"
      and key: "tagKey = (case measurementRemap D (tv_TagKey req) of
                            Some k \<Rightarrow> k | None \<Rightarrow> tv_TagKey req)"
      and attrs: "mqAttrs = \<lparr>mq_orgID = OrganizationID source, mq_db = database, mq_rp = rp,
                    mq_start = start, mq_end = end', mq_pred = influxqlPred\<rparr>"
      and clause: "tagKeyExpr = BinaryExpr EQ (VarRef ''_tagKey'') (StringLiteral (tv_TagKey req))"
  shows "(tagKey = ''_name'' \<longrightarrow>
            TagValues D s req =
              (fst (MeasurementNames D s mqAttrs), tr1 @ snd (MeasurementNames D s mqAttrs))) \<and>
         (tagKey = ''_field'' \<longrightarrow>
            TagValues D s req =
              (fst (measurementFields D s mqAttrs), tr1 @ snd (measurementFields D s mqAttrs))) \<and>
         (tagKey \<noteq> ''_name'' \<and> tagKey \<noteq> ''_field'' \<longrightarrow>
            (\<forall>shardIDs tr2 expr.
               findShardIDs D s database rp False start end' = ((shardIDs, None), tr2) \<and>
               len shardIDs \<noteq> 0 \<and> indexPredicate D (tv_Predicate req) = Inr expr \<longrightarrow>
               snd (TagValues D s req) =
                 tr1 @ tr2 @
                 [Call_TagValues OpenAuthorizer shardIDs
                    (Some (case expr of
                             None \<Rightarrow> tagKeyExpr
                           | Some e \<Rightarrow> BinaryExpr AND tagKeyExpr (ParenExpr e)))]))"
proof -
  have name: "TagValues D s req =
      (fst (MeasurementNames D s mqAttrs), tr1 @ snd (MeasurementNames D s mqAttrs))"
    if "tagKey = ''_name''"
    using that src val tsrc mq key [symmetric] attrs [symmetric]
    by (simp add: TagValues_def Let_def split: prod.splits)
  have field: "TagValues D s req =
      (fst (measurementFields D s mqAttrs), tr1 @ snd (measurementFields D s mqAttrs))"
    if "tagKey = ''_field''"
    using that src val tsrc mq key [symmetric] attrs [symmetric]
    by (simp add: TagValues_def Let_def split: prod.splits)
  have other: "snd (TagValues D s req) =
      tr1 @ tr2 @
      [Call_TagValues OpenAuthorizer shardIDs
         (Some (case expr of
                  None \<Rightarrow> tagKeyExpr
                | Some e \<Rightarrow> BinaryExpr AND tagKeyExpr (ParenExpr e)))]"
    if "tagKey \<noteq> ''_name''" "tagKey \<noteq> ''_field''"
       "findShardIDs D s database rp False start end' = ((shardIDs, None), tr2)"
       "len shardIDs \<noteq> 0" "indexPredicate D (tv_Predicate req) = Inr expr"
    for shardIDs tr2 expr
    using that src val tsrc mq key [symmetric] clause [symmetric]
    by (simp add: TagValues_def Let_def split: prod.splits option.splits)
  show ?thesis
    using name field other by blast
qed

theorem TagValues_dispatch_and_tagKey_clause_witness:
  "snd (TagValues ex_deps ex_store
     \<lparr>tv_TagsSource = Some ex_source, tv_Range = \<lparr>Start = 0, End = 0\<rparr>,
      tv_Predicate =
        Some \<lparr>Root = Some (ComparisonExpression EQ [TagRef ''host'', LiteralString ''a''])\<rparr>,
      tv_TagKey = ''region''\<rparr>) =
   [Call_Database ''000000000000000a'',
    Call_ShardGroupsByTimeRange ''000000000000000a'' ''autogen''
      (- 9223372036854775806) 9223372036854775806,
    Call_TagValues OpenAuthorizer (Some [1])
      (Some (BinaryExpr AND
               (BinaryExpr EQ (VarRef ''_tagKey'') (StringLiteral ''region''))
               (ParenExpr (BinaryExpr EQ (VarRef ''host'') (StringLiteral ''a'')))))] \<and>
   TagValues ex_deps ex_store
     \<lparr>tv_TagsSource = Some ex_source, tv_Range = \<lparr>Start = 0, End = 0\<rparr>,
      tv_Predicate = None, tv_TagKey = ''_measurement''\<rparr> =
   (fst (MeasurementNames ex_deps ex_store
           \<lparr>mq_orgID = 1, mq_db = ''000000000000000a'', mq_rp = ''autogen'',
            mq_start = - 9223372036854775806, mq_end = 9223372036854775806, mq_pred = None\<rparr>),
    [Call_Database ''000000000000000a''] @
    snd (MeasurementNames ex_deps ex_store
           \<lparr>mq_orgID = 1, mq_db = ''000000000000000a'', mq_rp = ''autogen'',
            mq_start = - 9223372036854775806, mq_end = 9223372036854775806, mq_pred = None\<rparr>))"
proof -
  let ?p = "Some \<lparr>Root = Some (ComparisonExpression EQ [TagRef ''host'', LiteralString ''a''])\<rparr>"
  let ?req = "\<lparr>tv_TagsSource = Some ex_source, tv_Range = \<lparr>Start = 0, End = 0\<rparr>,
      tv_Predicate = ?p, tv_TagKey = ''region''\<rparr>"
  let ?req' = "\<lparr>tv_TagsSource = Some ex_source, tv_Range = \<lparr>Start = 0, End = 0\<rparr>,
      tv_Predicate = None, tv_TagKey = ''_measurement''\<rparr>"
  have val: "validateArgs ex_deps ex_store (OrganizationID \<lparr>BucketID = 10, OrganizationID = 1\<rparr>)
       (BucketID \<lparr>BucketID = 10, OrganizationID = 1\<rparr>) (Start (tv_Range ?req)) (End (tv_Range ?req)) =
     ((''000000000000000a'', ''autogen'', - 9223372036854775806, 9223372036854775806, None),
      [Call_Database ''000000000000000a''])"
    by (simp add: ex_validateArgs)
  have val': "validateArgs ex_deps ex_store (OrganizationID \<lparr>BucketID = 10, OrganizationID = 1\<rparr>)
       (BucketID \<lparr>BucketID = 10, OrganizationID = 1\<rparr>) (Start (tv_Range ?req')) (End (tv_Range ?req')) =
     ((''000000000000000a'', ''autogen'', - 9223372036854775806, 9223372036854775806, None),
      [Call_Database ''000000000000000a''])"
    by (simp add: ex_validateArgs)
  have mq: "metaqueryPredicate ex_deps (tv_Predicate ?req) =
              Inr (Some (BinaryExpr EQ (VarRef ''host'') (StringLiteral ''a'')))"
    by (simp add: ex_metaqueryPredicate_host)
  have mq': "metaqueryPredicate ex_deps (tv_Predicate ?req') = Inr None"
    by (simp add: metaqueryPredicate_def GetRoot_def)
  have ip: "indexPredicate ex_deps (tv_Predicate ?req) =
              Inr (Some (BinaryExpr EQ (VarRef ''host'') (StringLiteral ''a'')))"
    by (simp add: ex_indexPredicate_host)
  have nz: "len (Some [1 :: uint64]) \<noteq> 0"
    by (simp add: len_def)
  have key: "''region'' = (case measurementRemap ex_deps (tv_TagKey ?req) of
                            Some k \<Rightarrow> k | None \<Rightarrow> tv_TagKey ?req)"
    by (simp add: ex_deps_def)
  have key': "''_name'' = (case measurementRemap ex_deps (tv_TagKey ?req') of
                            Some k \<Rightarrow> k | None \<Rightarrow> tv_TagKey ?req')"
    by (simp add: ex_deps_def)
  note generic = TagValues_dispatch_and_tagKey_clause [OF ex_getReadSource val _ mq key refl refl]
  note special = TagValues_dispatch_and_tagKey_clause [OF ex_getReadSource val' _ mq' key' refl refl]
  have a: "snd (TagValues ex_deps ex_store ?req) =
     [Call_Database ''000000000000000a''] @
     [Call_ShardGroupsByTimeRange ''000000000000000a'' ''autogen''
        (- 9223372036854775806) 9223372036854775806] @
     [Call_TagValues OpenAuthorizer (Some [1])
        (Some (BinaryExpr AND
                 (BinaryExpr EQ (VarRef ''_tagKey'') (StringLiteral ''region''))
                 (ParenExpr (BinaryExpr EQ (VarRef ''host'') (StringLiteral ''a'')))))]"
    using generic ex_findShardIDs_some nz ip by simp
  have b: "TagValues ex_deps ex_store ?req' =
     (fst (MeasurementNames ex_deps ex_store
           \<lparr>mq_orgID = 1, mq_db = ''000000000000000a'', mq_rp = ''autogen'',
            mq_start = - 9223372036854775806, mq_end = 9223372036854775806, mq_pred = None\<rparr>),
      [Call_Database ''000000000000000a''] @
      snd (MeasurementNames ex_deps ex_store
           \<lparr>mq_orgID = 1, mq_db = ''000000000000000a'', mq_rp = ''autogen'',
            mq_start = - 9223372036854775806, mq_end = 9223372036854775806, mq_pred = None\<rparr>))"
    using special by simp
  from a b show ?thesis by simp
qed

subsection \<open>The tag keys\<close>

lemma dom_fold_update: "dom (fold (\<lambda>k m. m(k \<mapsto> True)) ks m) = dom m \<union> set ks"
  by (induction ks arbitrary: m) auto

lemma dom_fold_Keys:
  "dom (fold (\<lambda>ks m. fold (\<lambda>k m. m(k \<mapsto> True)) (Keys ks) m) keys m) =
     dom m \<union> (\<Union>ks \<in> set keys. set (Keys ks))"
  by (induction keys arbitrary: m) (auto simp: dom_fold_update)

lemma ex_TagKeys_open:
  "TagKeys ex_deps ex_store
     \<lparr>tk_TagsSource = Some ex_source, tk_Range = \<lparr>Start = 0, End = 0\<rparr>, tk_Predicate = None\<rparr> =
   (Ret (Some (NewStringSliceIterator [''_field'', ''_measurement'', ''host'', ''region''])) None,
    [Call_Database ''000000000000000a'',
     Call_ShardGroupsByTimeRange ''000000000000000a'' ''autogen''
       (- 9223372036854775806) 9223372036854775806,
     Call_TagKeys OpenAuthorizer (Some [1]) None])"
  apply (simp add: TagKeys_def ex_getReadSource ex_validateArgs ex_findShardIDs_some len_def
      indexPredicate_def GetRoot_def)
  apply (simp add: ex_store_def ex_tsdb_def ex_deps_def insert_commute
      less_eq_char_def less_char_def)
  done

text \<open>
  C7. A \<^verbatim>\<open>TagKeys\<close> request that reaches the index without error returns an iterator
  over a list of names that holds exactly the tag keys the index returned and the two
  reserved keys for the measurement and the field, in strictly ascending order, so with
  no duplicates. Both reserved keys are in the list whatever the index returns, also when
  it returns no keys.
\<close>

theorem TagKeys_sorted_union:
  assumes src: "getReadSource D any = Inr source"
      and val: "validateArgs D s (OrganizationID source) (BucketID source)
                  (Start (tk_Range req)) (End (tk_Range req)) =
                  ((database, rp, start, end', None), tr1)"
      and tsrc: "tk_TagsSource req = Some any"
      and fnd: "findShardIDs D s database rp False start end' = ((shardIDs, None), tr2)"
      and nonzero: "len shardIDs \<noteq> 0"
      and ip: "indexPredicate D (tk_Predicate req) = Inr expr"
      and keys: "TSDBStore_TagKeys (TSDBStore s) OpenAuthorizer shardIDs expr = (keys, None)"
  shows "\<exists>names.
           TagKeys D s req =
             (Ret (Some (NewStringSliceIterator names)) None,
              tr1 @ tr2 @ [Call_TagKeys OpenAuthorizer shardIDs expr]) \<and>
           set names = {measurementKey D, fieldKey D} \<union> (\<Union>ks \<in> set keys. set (Keys ks)) \<and>
           sorted_wrt (<) names \<and>
           measurementKey D \<in> set names \<and> fieldKey D \<in> set names"
proof -
  let ?m = "fold (\<lambda>ks m. fold (\<lambda>k m. m(k \<mapsto> True)) (Keys ks) m) keys
              [measurementKey D \<mapsto> True, fieldKey D \<mapsto> True]"
  have dom: "dom ?m = {measurementKey D, fieldKey D} \<union> (\<Union>ks \<in> set keys. set (Keys ks))"
    by (auto simp: dom_fold_Keys)
  have fin: "finite (dom ?m)"
    by (simp add: dom)
  have run: "TagKeys D s req =
      (Ret (Some (NewStringSliceIterator (sorted_list_of_set (dom ?m)))) None,
       tr1 @ tr2 @ [Call_TagKeys OpenAuthorizer shardIDs expr])"
    using src val tsrc fnd nonzero ip keys by (simp add: TagKeys_def Let_def)
  have set: "set (sorted_list_of_set (dom ?m)) = dom ?m"
    using fin by simp
  have sorted: "sorted_wrt (<) (sorted_list_of_set (dom ?m))"
    by (rule strict_sorted_list_of_set)
  show ?thesis
    using run set sorted dom by auto
qed

theorem TagKeys_sorted_union_witness:
  "TagKeys ex_deps ex_store
     \<lparr>tk_TagsSource = Some ex_source, tk_Range = \<lparr>Start = 0, End = 0\<rparr>, tk_Predicate = None\<rparr> =
   (Ret (Some (NewStringSliceIterator [''_field'', ''_measurement'', ''host'', ''region''])) None,
    [Call_Database ''000000000000000a'',
     Call_ShardGroupsByTimeRange ''000000000000000a'' ''autogen''
       (- 9223372036854775806) 9223372036854775806,
     Call_TagKeys OpenAuthorizer (Some [1]) None]) \<and>
   set [''_field'', ''_measurement'', ''host'', ''region''] =
     {measurementKey ex_deps, fieldKey ex_deps} \<union>
     (\<Union>ks \<in> set [\<lparr>Measurement = ''cpu'', Keys = [''region'', ''host'']\<rparr>,
                    \<lparr>Measurement = ''mem'', Keys = [''host'']\<rparr>]. set (Keys ks)) \<and>
   sorted_wrt (<) [''_field'', ''_measurement'', ''host'', ''region'']"
proof -
  let ?req = "\<lparr>tk_TagsSource = Some ex_source, tk_Range = \<lparr>Start = 0, End = 0\<rparr>,
               tk_Predicate = None\<rparr>"
  have val: "validateArgs ex_deps ex_store (OrganizationID \<lparr>BucketID = 10, OrganizationID = 1\<rparr>)
       (BucketID \<lparr>BucketID = 10, OrganizationID = 1\<rparr>)
       (Start (tk_Range ?req)) (End (tk_Range ?req)) =
     ((''000000000000000a'', ''autogen'', - 9223372036854775806, 9223372036854775806, None),
      [Call_Database ''000000000000000a''])"
    by (simp add: ex_validateArgs)
  have tsrc: "tk_TagsSource ?req = Some ex_source"
    by simp
  have nz: "len (Some [1 :: uint64]) \<noteq> 0"
    by (simp add: len_def)
  have ip: "indexPredicate ex_deps (tk_Predicate ?req) = Inr None"
    by (simp add: indexPredicate_def GetRoot_def)
  have keys: "TSDBStore_TagKeys (TSDBStore ex_store) OpenAuthorizer (Some [1]) None =
      ([\<lparr>Measurement = ''cpu'', Keys = [''region'', ''host'']\<rparr>,
        \<lparr>Measurement = ''mem'', Keys = [''host'']\<rparr>], None)"
    by (simp add: ex_store_def ex_tsdb_def)
  from TagKeys_sorted_union [OF ex_getReadSource val tsrc ex_findShardIDs_some nz ip keys]
  obtain names where
    run: "TagKeys ex_deps ex_store ?req =
       (Ret (Some (NewStringSliceIterator names)) None,
        [Call_Database ''000000000000000a''] @
        [Call_ShardGroupsByTimeRange ''000000000000000a'' ''autogen''
           (- 9223372036854775806) 9223372036854775806] @
        [Call_TagKeys OpenAuthorizer (Some [1]) None])" and
    set: "set names = {measurementKey ex_deps, fieldKey ex_deps} \<union>
       (\<Union>ks \<in> set [\<lparr>Measurement = ''cpu'', Keys = [''region'', ''host'']\<rparr>,
                      \<lparr>Measurement = ''mem'', Keys = [''host'']\<rparr>]. set (Keys ks))" and
    sorted: "sorted_wrt (<) names"
    by blast
  from run have names: "names = [''_field'', ''_measurement'', ''host'', ''region'']"
    by (simp add: ex_TagKeys_open)
  from run set sorted show ?thesis
    unfolding names by simp
qed

subsection \<open>The scan over the series\<close>

lemma cursorHasData_typed:
  "cursorHasData c = Inr True \<longleftrightarrow>
     (\<exists>bs. c \<in> {IntegerArrayCursor bs, FloatArrayCursor bs, UnsignedArrayCursor bs,
                 BooleanArrayCursor bs, StringArrayCursor bs} \<and> Next bs \<noteq> [])"
  by (cases c) (auto simp: cursorHasData_def)

lemma cursorHasData_no_panic:
  "(\<forall>t. c \<noteq> OtherCursor t) \<Longrightarrow> \<exists>b. cursorHasData c = Inr b"
  by (cases c) (auto simp: cursorHasData_def)

lemma tagValuesSlow_loop_set:
  assumes "\<forall>tags t. (tags, Some (OtherCursor t)) \<notin> set rows"
  shows "tagValuesSlow_loop tagKey rows m =
           Inr (m \<union> {Get tags tagKey | tags c.
                       (tags, Some c) \<in> set rows \<and> cursorHasData c = Inr True})"
  using assms
proof (induction tagKey rows m rule: tagValuesSlow_loop.induct)
  case (1 tagKey m)
  then show ?case by simp
next
  case (2 tagKey tags rest m)
  then show ?case by auto
next
  case (3 tagKey tags c rest m)
  from 3(3) have "\<forall>t. c \<noteq> OtherCursor t"
    by auto
  then obtain b where b: "cursorHasData c = Inr b"
    using cursorHasData_no_panic by blast
  from 3(3) have rest: "\<forall>tags t. (tags, Some (OtherCursor t)) \<notin> set rest"
    by auto
  show ?case
  proof (cases b)
    case True
    with b 3(1) [OF b True rest] show ?thesis by auto
  next
    case False
    with b 3(2) [OF b False rest] show ?thesis by auto
  qed
qed

lemma ex_tagValuesSlow_host:
  "tagValuesSlow ex_deps ex_store
     \<lparr>mq_orgID = 1, mq_db = ''000000000000000a'', mq_rp = ''autogen'',
      mq_start = - 9223372036854775806, mq_end = 9223372036854775806, mq_pred = None\<rparr>
     ''host'' =
   (Ret (Some (NewStringSliceIterator [''a'', ''b''])) None,
    [Call_ShardGroupsByTimeRange ''000000000000000a'' ''autogen''
       (- 9223372036854775806) 9223372036854775806,
     Call_Shards (Some [1]),
     Call_newIndexSeriesCursorInfluxQLPred None [Shard 1]])"
  apply (simp add: tagValuesSlow_def ex_findShardIDs_some len_def)
  apply (simp add: ex_deps_def ex_store_def ex_tsdb_def elems_def ex_series_def
      cursorHasData_def Next_def Get_def insert_commute less_eq_char_def less_char_def)
  done

text \<open>
  C6. When \<^verbatim>\<open>tagValuesSlow\<close> gets a series cursor over a non-empty shard list, and every
  data cursor of the result set is of one of the five array cursor types, it returns an
  iterator over a list of names in strictly ascending order, so with no duplicates. A
  value is in the list if and only if it is the value of the target tag on a series of the
  result set that has a data cursor whose \<^verbatim>\<open>Next\<close> returns an array with at least one
  point. A series with no cursor, or with a cursor whose array is empty, adds nothing.
\<close>

theorem tagValuesSlow_values_with_data:
  assumes fnd: "findShardIDs D s (mq_db mqAttrs) (mq_rp mqAttrs) False
                  (mq_start mqAttrs) (mq_end mqAttrs) = ((shardIDs, None), tr1)"
      and nonzero: "len shardIDs \<noteq> 0"
      and cur: "newIndexSeriesCursorInfluxQLPred D (mq_pred mqAttrs)
                  (TSDBStore_Shards (TSDBStore s) shardIDs) = (Some cur, None)"
      and rows: "rows = series D (NewFilteredResultSet (mq_start mqAttrs) (mq_end mqAttrs) cur)"
      and typed: "\<forall>tags t. (tags, Some (OtherCursor t)) \<notin> set rows"
  shows "\<exists>names.
           tagValuesSlow D s mqAttrs tagKey =
             (Ret (Some (NewStringSliceIterator names)) None,
              tr1 @ [Call_Shards shardIDs,
                     Call_newIndexSeriesCursorInfluxQLPred (mq_pred mqAttrs)
                       (TSDBStore_Shards (TSDBStore s) shardIDs)]) \<and>
           (\<forall>v. v \<in> set names \<longleftrightarrow>
              (\<exists>tags c bs. (tags, Some c) \<in> set rows \<and>
                 c \<in> {IntegerArrayCursor bs, FloatArrayCursor bs, UnsignedArrayCursor bs,
                      BooleanArrayCursor bs, StringArrayCursor bs} \<and>
                 Next bs \<noteq> [] \<and> v = Get tags tagKey)) \<and>
           sorted_wrt (<) names"
proof -
  let ?m = "{Get tags tagKey | tags c. (tags, Some c) \<in> set rows \<and> cursorHasData c = Inr True}"
  have loop: "tagValuesSlow_loop tagKey rows {} = Inr ?m"
    using tagValuesSlow_loop_set [OF typed, of tagKey "{}"] by simp
  have sub: "?m \<subseteq> (\<lambda>r. Get (fst r) tagKey) ` set rows"
    by force
  have fin: "finite ?m"
    by (rule finite_subset [OF sub]) simp
  have run: "tagValuesSlow D s mqAttrs tagKey =
      (Ret (Some (NewStringSliceIterator (sorted_list_of_set ?m))) None,
       tr1 @ [Call_Shards shardIDs,
              Call_newIndexSeriesCursorInfluxQLPred (mq_pred mqAttrs)
                (TSDBStore_Shards (TSDBStore s) shardIDs)])"
    using fnd nonzero cur rows [symmetric] loop by (simp add: tagValuesSlow_def Let_def)
  have mem: "v \<in> set (sorted_list_of_set ?m) \<longleftrightarrow>
      (\<exists>tags c bs. (tags, Some c) \<in> set rows \<and>
         c \<in> {IntegerArrayCursor bs, FloatArrayCursor bs, UnsignedArrayCursor bs,
              BooleanArrayCursor bs, StringArrayCursor bs} \<and>
         Next bs \<noteq> [] \<and> v = Get tags tagKey)" for v
    using fin by (simp add: cursorHasData_typed) blast
  have sorted: "sorted_wrt (<) (sorted_list_of_set ?m)"
    by (rule strict_sorted_list_of_set)
  show ?thesis
    using run mem sorted by blast
qed

theorem tagValuesSlow_values_with_data_witness:
  "tagValuesSlow ex_deps ex_store
     \<lparr>mq_orgID = 1, mq_db = ''000000000000000a'', mq_rp = ''autogen'',
      mq_start = - 9223372036854775806, mq_end = 9223372036854775806, mq_pred = None\<rparr>
     ''host'' =
   (Ret (Some (NewStringSliceIterator [''a'', ''b''])) None,
    [Call_ShardGroupsByTimeRange ''000000000000000a'' ''autogen''
       (- 9223372036854775806) 9223372036854775806,
     Call_Shards (Some [1]),
     Call_newIndexSeriesCursorInfluxQLPred None [Shard 1]]) \<and>
   (\<exists>tags c bs. (tags, Some c) \<in> set ex_series \<and>
      c \<in> {IntegerArrayCursor bs, FloatArrayCursor bs, UnsignedArrayCursor bs,
           BooleanArrayCursor bs, StringArrayCursor bs} \<and>
      Next bs \<noteq> [] \<and> ''b'' = Get tags ''host'') \<and>
   \<not> (\<exists>tags c bs. (tags, Some c) \<in> set ex_series \<and>
      c \<in> {IntegerArrayCursor bs, FloatArrayCursor bs, UnsignedArrayCursor bs,
           BooleanArrayCursor bs, StringArrayCursor bs} \<and>
      Next bs \<noteq> [] \<and> ''c'' = Get tags ''host'') \<and>
   sorted_wrt (<) [''a'', ''b'']"
proof -
  let ?attrs = "\<lparr>mq_orgID = 1, mq_db = ''000000000000000a'', mq_rp = ''autogen'',
      mq_start = - 9223372036854775806, mq_end = 9223372036854775806, mq_pred = None\<rparr>"
  have fnd: "findShardIDs ex_deps ex_store (mq_db ?attrs) (mq_rp ?attrs) False
       (mq_start ?attrs) (mq_end ?attrs) =
     ((Some [1], None),
      [Call_ShardGroupsByTimeRange ''000000000000000a'' ''autogen''
         (- 9223372036854775806) 9223372036854775806])"
    by (simp add: ex_findShardIDs_some)
  have nz: "len (Some [1 :: uint64]) \<noteq> 0"
    by (simp add: len_def)
  have cur: "newIndexSeriesCursorInfluxQLPred ex_deps (mq_pred ?attrs)
       (TSDBStore_Shards (TSDBStore ex_store) (Some [1])) = (Some (SeriesCursor 1), None)"
    by (simp add: ex_deps_def)
  have rows: "ex_series = series ex_deps
       (NewFilteredResultSet (mq_start ?attrs) (mq_end ?attrs) (SeriesCursor 1))"
    by (simp add: ex_deps_def)
  have typed: "\<forall>tags t. (tags, Some (OtherCursor t)) \<notin> set ex_series"
    by (simp add: ex_series_def)
  from tagValuesSlow_values_with_data [OF fnd nz cur rows typed, of "''host''"]
  obtain names where
    run: "tagValuesSlow ex_deps ex_store ?attrs ''host'' =
       (Ret (Some (NewStringSliceIterator names)) None,
        [Call_ShardGroupsByTimeRange ''000000000000000a'' ''autogen''
           (- 9223372036854775806) 9223372036854775806] @
        [Call_Shards (Some [1]),
         Call_newIndexSeriesCursorInfluxQLPred (mq_pred ?attrs)
           (TSDBStore_Shards (TSDBStore ex_store) (Some [1]))])" and
    mem: "\<And>v. v \<in> set names \<longleftrightarrow>
       (\<exists>tags c bs. (tags, Some c) \<in> set ex_series \<and>
          c \<in> {IntegerArrayCursor bs, FloatArrayCursor bs, UnsignedArrayCursor bs,
               BooleanArrayCursor bs, StringArrayCursor bs} \<and>
          Next bs \<noteq> [] \<and> v = Get tags ''host'')" and
    sorted: "sorted_wrt (<) names"
    by blast
  from run have names: "names = [''a'', ''b'']"
    by (simp add: ex_tagValuesSlow_host)
  have b: "\<exists>tags c bs. (tags, Some c) \<in> set ex_series \<and>
      c \<in> {IntegerArrayCursor bs, FloatArrayCursor bs, UnsignedArrayCursor bs,
           BooleanArrayCursor bs, StringArrayCursor bs} \<and>
      Next bs \<noteq> [] \<and> ''b'' = Get tags ''host''"
    using mem [of "''b''"] by (simp add: names)
  have c: "\<not> (\<exists>tags c bs. (tags, Some c) \<in> set ex_series \<and>
      c \<in> {IntegerArrayCursor bs, FloatArrayCursor bs, UnsignedArrayCursor bs,
           BooleanArrayCursor bs, StringArrayCursor bs} \<and>
      Next bs \<noteq> [] \<and> ''c'' = Get tags ''host'')"
    using mem [of "''c''"] by (simp add: names)
  have srt: "sorted_wrt (<) [''a'', ''b'']"
    using sorted by (simp add: names)
  show ?thesis
    by (intro conjI ex_tagValuesSlow_host b c srt)
qed

subsection \<open>The field names\<close>







end
